theory Spec2Isabelle
  imports Main "HOL-Library.Word"
begin

unbundle bit_operations_syntax

section \<open>JSON values as the client reads them\<close>

text \<open>
  The client reads response bodies through \<open>JSON.parse\<close> and \<open>response.json()\<close>.
  A parsed body is a JSON value; the only numeric member the client reads is
  \<open>error.code\<close>, an integer, so numbers are integers here. An object keeps its
  members in the order of the text; a member written twice is read as its last
  occurrence, as \<open>JSON.parse\<close> does.
\<close>

datatype json =
    JNull
  | JBool bool
  | JNum int
  | JStr string
  | JArr "json list"
  | JObj "(string \<times> json) list"

text \<open>\<open>v.k\<close> on a parsed value: \<open>None\<close> stands for \<open>undefined\<close>.\<close>

fun member :: "json \<Rightarrow> string \<Rightarrow> json option" where
  "member (JObj fs) k = map_of (rev fs) k"
| "member _ k = None"

text \<open>\<open>v?.k\<close> where \<open>v\<close> itself may be \<open>null\<close> or \<open>undefined\<close>.\<close>

fun opt_member :: "json option \<Rightarrow> string \<Rightarrow> json option" where
  "opt_member None k = None"
| "opt_member (Some v) k = member v k"

text \<open>JavaScript truthiness of a parsed value.\<close>

fun truthy :: "json \<Rightarrow> bool" where
  "truthy JNull = False"
| "truthy (JBool b) = b"
| "truthy (JNum n) = (n \<noteq> 0)"
| "truthy (JStr s) = (s \<noteq> [])"
| "truthy (JArr xs) = True"
| "truthy (JObj fs) = True"

text \<open>\<open>result && typeof result === "object" && "data" in result\<close>.\<close>

fun has_data :: "json \<Rightarrow> bool" where
  "has_data (JObj fs) = (map_of (rev fs) ''data'' \<noteq> None)"
| "has_data _ = False"

section \<open>JavaScript numbers\<close>

text \<open>
  The components compute amounts with \<open>parseFloat\<close>, \<open>*\<close>, \<open>/\<close> and
  \<open>Number.prototype.toString\<close>, that is, in IEEE 754 binary64 with rounding to nearest,
  ties to even. A finite number value is \<open>m * 2 ^ e\<close> with \<open>m\<close> odd, or zero (\<open>m = 0\<close>,
  \<open>e = 0\<close>); its exponent never goes below \<open>- 1074\<close>, which gives the subnormal numbers
  their coarser spacing. The infinities and the sign of zero are not modelled: no amount
  or percentage reaches them.
\<close>


text \<open>The number of binary digits of \<open>n\<close>.\<close>

function bit_length :: "int \<Rightarrow> int" where
  "bit_length n = (if n \<le> 0 then 0 else 1 + bit_length (n div 2))"
  by pat_completeness auto
termination
  by (relation "measure nat") auto

declare bit_length.simps [simp del]

text \<open>The integer nearest to \<open>n / d\<close>, for \<open>0 \<le> n\<close> and \<open>0 < d\<close>; of two, the even one.\<close>

definition round_half_even_div :: "int \<Rightarrow> int \<Rightarrow> int" where
  "round_half_even_div n d =
     (if 2 * (n mod d) < d then n div d
      else if d < 2 * (n mod d) then n div d + 1
      else if even (n div d) then n div d else n div d + 1)"

text \<open>For \<open>0 < n\<close> and \<open>0 < d\<close>: the \<open>e\<close> with \<open>2 ^ e \<le> n / d < 2 ^ (e + 1)\<close>.\<close>

definition floor_log2_ratio :: "int \<Rightarrow> int \<Rightarrow> int" where
  "floor_log2_ratio n d =
     (if (if 0 \<le> bit_length n - bit_length d
          then d * 2 ^ nat (bit_length n - bit_length d) \<le> n
          else d \<le> n * 2 ^ nat (bit_length d - bit_length n))
      then bit_length n - bit_length d else bit_length n - bit_length d - 1)"

text \<open>The exponent of the last of the 53 binary digits of \<open>n / d\<close>.\<close>

definition ulp_exponent :: "int \<Rightarrow> int \<Rightarrow> int" where
  "ulp_exponent n d = max (floor_log2_ratio n d - 52) (- 1074)"

definition scaled_mantissa :: "int \<Rightarrow> int \<Rightarrow> int \<Rightarrow> int" where
  "scaled_mantissa n d u =
     (if 0 \<le> u then round_half_even_div n (d * 2 ^ nat u)
      else round_half_even_div (n * 2 ^ nat (- u)) d)"

function strip_twos :: "int \<Rightarrow> int \<Rightarrow> int \<times> int" where
  "strip_twos m e =
     (if m \<noteq> 0 \<and> even m then strip_twos (m div 2) (e + 1)
      else (m, if m = 0 then 0 else e))"
  by pat_completeness auto
termination
  by (relation "measure (\<lambda>(m, e). nat \<bar>m\<bar>)") auto

declare strip_twos.simps [simp del]

datatype number = Finite int int | NaN

text \<open>The number value of \<open>n / d\<close>, for \<open>0 \<le> n\<close> and \<open>0 < d\<close>.\<close>

definition round_ratio :: "int \<Rightarrow> int \<Rightarrow> number" where
  "round_ratio n d =
     (if n = 0 then Finite 0 0
      else case strip_twos (scaled_mantissa n d (ulp_exponent n d)) (ulp_exponent n d) of
             (m, e) \<Rightarrow> Finite m e)"

fun negate :: "number \<Rightarrow> number" where
  "negate (Finite m e) = Finite (- m) e"
| "negate NaN = NaN"

definition round_signed :: "int \<Rightarrow> int \<Rightarrow> number" where
  "round_signed n d = (if n < 0 then negate (round_ratio (- n) d) else round_ratio n d)"

definition number_of_int :: "int \<Rightarrow> number" where
  "number_of_int k = round_signed k 1"

text \<open>\<open>a * b\<close> and \<open>a / b\<close>: the exact result, rounded. A division by zero gives an infinity
  or \<open>NaN\<close> in JavaScript and \<open>NaN\<close> here; every divisor of the components is 100.\<close>

fun number_times :: "number \<Rightarrow> number \<Rightarrow> number" where
  "number_times (Finite m1 e1) (Finite m2 e2) =
     (if 0 \<le> e1 + e2 then round_signed (m1 * m2 * 2 ^ nat (e1 + e2)) 1
      else round_signed (m1 * m2) (2 ^ nat (- (e1 + e2))))"
| "number_times _ _ = NaN"

fun number_divide :: "number \<Rightarrow> number \<Rightarrow> number" where
  "number_divide (Finite m1 e1) (Finite m2 e2) =
     (if m2 = 0 then NaN
      else if 0 \<le> e1 - e2
        then round_signed (sgn m2 * m1 * 2 ^ nat (e1 - e2)) \<bar>m2\<bar>
        else round_signed (sgn m2 * m1) (\<bar>m2\<bar> * 2 ^ nat (e2 - e1)))"
| "number_divide _ _ = NaN"


text \<open>The decimal digits of \<open>0 \<le> n\<close>.\<close>

definition digit_char :: "int \<Rightarrow> char" where
  "digit_char d = ''0123456789'' ! nat d"

function decimal :: "int \<Rightarrow> string" where
  "decimal n = (if n < 10 then [digit_char n] else decimal (n div 10) @ [digit_char (n mod 10)])"
  by pat_completeness auto
termination
  by (relation "measure nat") auto

declare decimal.simps [simp del]

function dec_length :: "int \<Rightarrow> int" where
  "dec_length n = (if n \<le> 0 then 0 else 1 + dec_length (n div 10))"
  by pat_completeness auto
termination
  by (relation "measure nat") auto

declare dec_length.simps [simp del]

text \<open>For \<open>x = n / d > 0\<close>: the \<open>k\<close> with \<open>10 ^ (k - 1) \<le> x < 10 ^ k\<close>.\<close>

definition decimal_exponent :: "int \<Rightarrow> int \<Rightarrow> int" where
  "decimal_exponent n d =
     (if (if 0 \<le> dec_length n - dec_length d
          then d * 10 ^ nat (dec_length n - dec_length d) \<le> n
          else d \<le> n * 10 ^ nat (dec_length d - dec_length n))
      then dec_length n - dec_length d + 1 else dec_length n - dec_length d)"

text \<open>The number value of \<open>s * 10 ^ p\<close>.\<close>

definition number_of_decimal :: "int \<Rightarrow> int \<Rightarrow> number" where
  "number_of_decimal s p =
     (if 0 \<le> p then round_signed (s * 10 ^ nat p) 1 else round_signed s (10 ^ nat (- p)))"

text \<open>
  The digits of \<open>Number::toString\<close> for \<open>x = n / d > 0\<close>, a number value: the least
  \<open>k\<close> from \<open>k0\<close> on, and the \<open>s\<close> with \<open>k\<close> digits, such that \<open>s * 10 ^ (e - k)\<close>
  has the number value \<open>x\<close>; of two such \<open>s\<close> the one nearer to \<open>x\<close>, the even one
  when both are as near.
\<close>

fun shortest_digits :: "nat \<Rightarrow> number \<Rightarrow> int \<Rightarrow> int \<Rightarrow> int \<Rightarrow> int \<Rightarrow> int \<times> int" where
  "shortest_digits 0 x n d e k = (0, k)"
| "shortest_digits (Suc fuel) x n d e k =
     (let num = (if 0 \<le> e - k then n else n * 10 ^ nat (k - e));
          den = (if 0 \<le> e - k then d * 10 ^ nat (e - k) else d);
          lo = num div den;
          lo_ok = (number_of_decimal lo (e - k) = x);
          hi_ok = (number_of_decimal (lo + 1) (e - k) = x)
      in if lo_ok \<and> hi_ok then
           (if 2 * (num mod den) < den then (lo, k)
            else if den < 2 * (num mod den) then (lo + 1, k)
            else if even lo then (lo, k) else (lo + 1, k))
         else if lo_ok then (lo, k)
         else if hi_ok then (lo + 1, k)
         else shortest_digits fuel x n d e (k + 1))"

text \<open>The text of \<open>Number::toString\<close> from the digits \<open>s\<close> and the exponent \<open>e\<close>.\<close>

definition format_digits :: "string \<Rightarrow> int \<Rightarrow> string" where
  "format_digits ds e =
     (let k = int (length ds) in
      if k \<le> e \<and> e \<le> 21 then ds @ replicate (nat (e - k)) CHR ''0''
      else if 0 < e \<and> e \<le> 21 then take (nat e) ds @ ''.'' @ drop (nat e) ds
      else if - 6 < e \<and> e \<le> 0 then ''0.'' @ replicate (nat (- e)) CHR ''0'' @ ds
      else (if k = 1 then ds else take 1 ds @ ''.'' @ drop 1 ds)
           @ ''e'' @ (if e - 1 < 0 then ''-'' else ''+'') @ decimal \<bar>e - 1\<bar>)"

definition strip_zeros :: "string \<Rightarrow> string" where
  "strip_zeros ds = rev (dropWhile (\<lambda>c. c = CHR ''0'') (rev ds))"

definition toString_pos :: "int \<Rightarrow> int \<Rightarrow> string" where
  "toString_pos m e =
     (let n = (if 0 \<le> e then m * 2 ^ nat e else m);
          d = (if 0 \<le> e then 1 else 2 ^ nat (- e));
          x = decimal_exponent n d;
          sk = shortest_digits 21 (Finite m e) n d x 1;
          ds = decimal (fst sk)
      in format_digits (strip_zeros ds) (x + int (length ds) - snd sk))"

fun toString :: "number \<Rightarrow> string" where
  "toString NaN = ''NaN''"
| "toString (Finite m e) =
     (if m = 0 then ''0''
      else if m < 0 then ''-'' @ toString_pos (- m) e
      else toString_pos m e)"

text \<open>
  \<open>parseFloat\<close>: leading white space, an optional sign, digits with an optional
  fraction, an optional exponent; what follows is ignored. A text with no digit gives
  \<open>NaN\<close> (\<open>Infinity\<close> is not read).
\<close>

definition is_digit :: "char \<Rightarrow> bool" where
  "is_digit c = (c \<in> set ''0123456789'')"

definition is_space :: "char \<Rightarrow> bool" where
  "is_space c = (c \<in> set [CHR '' '', CHR 0x09, CHR 0x0A, CHR 0x0B, CHR 0x0C, CHR 0x0D])"

definition digits_value :: "string \<Rightarrow> int" where
  "digits_value ds = foldl (\<lambda>acc c. acc * 10 + (of_char c - 48)) 0 ds"

definition exponent_part :: "string \<Rightarrow> int" where
  "exponent_part r =
     (if take 1 r = ''e'' \<or> take 1 r = ''E'' then
        (let r1 = drop 1 r;
             r2 = (if take 1 r1 = ''-'' \<or> take 1 r1 = ''+'' then drop 1 r1 else r1);
             ds = takeWhile is_digit r2
         in if ds = [] then 0
            else if take 1 r1 = ''-'' then - digits_value ds else digits_value ds)
      else 0)"

definition parseFloat :: "string \<Rightarrow> number" where
  "parseFloat s =
     (let t = dropWhile is_space s;
          t1 = (if take 1 t = ''-'' \<or> take 1 t = ''+'' then drop 1 t else t);
          ip = takeWhile is_digit t1;
          r1 = dropWhile is_digit t1;
          fp = (if take 1 r1 = ''.'' then takeWhile is_digit (drop 1 r1) else []);
          r2 = (if take 1 r1 = ''.'' then dropWhile is_digit (drop 1 r1) else r1)
      in if ip = [] \<and> fp = [] then NaN
         else if take 1 t = ''-''
           then negate (number_of_decimal (digits_value (ip @ fp)) (exponent_part r2 - int (length fp)))
           else number_of_decimal (digits_value (ip @ fp)) (exponent_part r2 - int (length fp)))"

section \<open>Bytes and their encodings\<close>

text \<open>
  A text is held as the sequence of its UTF-8 bytes, which is what
  \<open>Buffer.from(text, "utf-8")\<close> reads off; \<open>toUpperCase\<close> is modelled on ASCII
  letters, which is what an HTTP method is made of.
\<close>

type_synonym byte = "8 word"

definition utf8_bytes :: "string \<Rightarrow> byte list" where
  "utf8_bytes s = map (\<lambda>c. of_nat (of_char c)) s"

definition toUpperCase :: "string \<Rightarrow> string" where
  "toUpperCase s =
     map (\<lambda>c. if c \<in> set ''abcdefghijklmnopqrstuvwxyz'' then char_of (of_char c - 32 :: nat)
               else c) s"

text \<open>
  \<open>Buffer.from(text, "hex")\<close>: one byte for each pair of hexadecimal digits, up to the
  first pair that is not one.
\<close>

definition hex_digit :: "char \<Rightarrow> nat option" where
  "hex_digit c =
     map_of (zip ''0123456789abcdef'' [0 ..< 16] @ zip ''ABCDEF'' [10 ..< 16]) c"

fun hex_decode :: "string \<Rightarrow> byte list" where
  "hex_decode (a # b # rest) =
     (case (hex_digit a, hex_digit b) of
        (Some x, Some y) \<Rightarrow> of_nat (16 * x + y) # hex_decode rest
      | _ \<Rightarrow> [])"
| "hex_decode _ = []"

text \<open>
  \<open>Buffer.toString("base64")\<close>: three bytes give four digits of six bits each, written
  in the alphabet below; one or two bytes left over give two or three digits, and
  \<open>=\<close> fills the text up to a multiple of four.
\<close>

definition base64_alphabet :: string where
  "base64_alphabet = ''ABCDEFGHIJKLMNOPQRSTUVWXYZabcdefghijklmnopqrstuvwxyz0123456789+/''"

fun bytes_to_sextets :: "byte list \<Rightarrow> nat list" where
  "bytes_to_sextets (a # b # c # rest) =
     [unat a div 4, (unat a mod 4) * 16 + unat b div 16,
      (unat b mod 16) * 4 + unat c div 64, unat c mod 64] @ bytes_to_sextets rest"
| "bytes_to_sextets [a, b] =
     [unat a div 4, (unat a mod 4) * 16 + unat b div 16, (unat b mod 16) * 4]"
| "bytes_to_sextets [a] = [unat a div 4, (unat a mod 4) * 16]"
| "bytes_to_sextets [] = []"

definition base64_encode :: "byte list \<Rightarrow> string" where
  "base64_encode data =
     map (\<lambda>i. base64_alphabet ! i) (bytes_to_sextets data)
     @ replicate ((3 - length data mod 3) mod 3) CHR ''=''"

text \<open>\<open>text.replace(/x/g, "y")\<close> and \<open>text.replace(/x/g, "")\<close> for one character \<open>x\<close>.\<close>

definition replace_char :: "char \<Rightarrow> char \<Rightarrow> string \<Rightarrow> string" where
  "replace_char x y s = map (\<lambda>c. if c = x then y else c) s"

definition remove_char :: "char \<Rightarrow> string \<Rightarrow> string" where
  "remove_char x s = filter (\<lambda>c. c \<noteq> x) s"

definition base64URLEncode :: "byte list \<Rightarrow> string" where
  "base64URLEncode data =
     remove_char CHR ''='' (replace_char CHR ''/'' CHR ''_''
       (replace_char CHR ''+'' CHR ''-'' (base64_encode data)))"

text \<open>
  \<open>Buffer.from(text, "base64")\<close> on the digits of the alphabet, up to the first
  character that is not one: four digits give three bytes, three digits left over two
  bytes, two digits one byte.
\<close>

fun sextets_to_bytes :: "nat list \<Rightarrow> byte list" where
  "sextets_to_bytes (i # j # k # l # rest) =
     [of_nat (i * 4 + j div 16), of_nat ((j mod 16) * 16 + k div 4),
      of_nat ((k mod 4) * 64 + l)] @ sextets_to_bytes rest"
| "sextets_to_bytes [i, j, k] = [of_nat (i * 4 + j div 16), of_nat ((j mod 16) * 16 + k div 4)]"
| "sextets_to_bytes [i, j] = [of_nat (i * 4 + j div 16)]"
| "sextets_to_bytes _ = []"

definition base64_index :: "char \<Rightarrow> nat" where
  "base64_index c = length (takeWhile (\<lambda>x. x \<noteq> c) base64_alphabet)"

definition base64_decode :: "string \<Rightarrow> byte list" where
  "base64_decode s =
     sextets_to_bytes (map base64_index (takeWhile (\<lambda>c. c \<in> set base64_alphabet) s))"

definition base64URLDecode :: "string \<Rightarrow> byte list" where
  "base64URLDecode str =
     base64_decode
       (replace_char CHR ''_'' CHR ''/''
          (replace_char CHR ''-'' CHR ''+''
             (if length str mod 4 \<noteq> 0
              then str @ replicate (4 - length str mod 4) CHR ''=''
              else str)))"

text \<open>The two replacements of \<open>base64URLEncode\<close>, and the two of \<open>base64URLDecode\<close>.\<close>

definition url_chars :: "string \<Rightarrow> string" where
  "url_chars s = replace_char CHR ''/'' CHR ''_'' (replace_char CHR ''+'' CHR ''-'' s)"

definition plain_chars :: "string \<Rightarrow> string" where
  "plain_chars s = replace_char CHR ''_'' CHR ''/'' (replace_char CHR ''-'' CHR ''+'' s)"

section \<open>The key exchange\<close>

text \<open>
  The cryptographic primitives come from the libraries \<open>@noble/hashes\<close> and
  \<open>@noble/curves\<close>. They are parameters here: \<open>sha512\<close> and \<open>hmac_sha256\<close> give a
  digest, \<open>x25519\<close> (\<open>x25519.getSharedSecret\<close>) gives the shared secret or throws.
\<close>

record primitives =
  sha512 :: "byte list \<Rightarrow> byte list"
  x25519 :: "byte list \<Rightarrow> byte list \<Rightarrow> string + byte list"
  hmac_sha256 :: "byte list \<Rightarrow> byte list \<Rightarrow> byte list"

record keystore =
  app_id :: string
  session_private_key :: string

text \<open>
  \<open>ed25519PrivateToCurve25519\<close>: the first 32 bytes of the SHA-512 of the first 32 bytes
  of the key, with \<open>[0] &= 248\<close>, \<open>[31] &= 127\<close> and \<open>[31] |= 64\<close>. A write past the end
  of a typed array does nothing, as a list update does.
\<close>

definition ed25519PrivateToCurve25519 :: "(byte list \<Rightarrow> byte list) \<Rightarrow> byte list \<Rightarrow> byte list" where
  "ed25519PrivateToCurve25519 hash ed25519PrivateKey =
     (let seed = take 32 ed25519PrivateKey;
          digest = hash seed;
          k0 = take 32 digest;
          k1 = k0[0 := (k0 ! 0) AND 248];
          k2 = k1[31 := (k1 ! 31) AND 127]
      in k2[31 := (k2 ! 31) OR 64])"

text \<open>
  \<open>generateSharedKey\<close>: the private key of the keystore is read from its hexadecimal
  text, the public key of the Route bot from its URL-safe base64 text, and the two are
  given to X25519.
\<close>

definition generateSharedKey :: "primitives \<Rightarrow> keystore \<Rightarrow> string \<Rightarrow> string + byte list" where
  "generateSharedKey prim ks routeBotPublicKey =
     x25519 prim
       (ed25519PrivateToCurve25519 (sha512 prim) (hex_decode (session_private_key ks)))
       (base64URLDecode routeBotPublicKey)"

text \<open>
  For comparison, the conversion of an Ed25519 public key to the Montgomery form: a
  point with Edwards coordinate \<open>y\<close> has the Montgomery coordinate
  \<open>u = (1 + y) / (1 - y)\<close> in the field of \<open>2 ^ 255 - 19\<close> elements. Both are written
  as 32 bytes, least significant first; the top bit of the Edwards form is the sign of
  \<open>x\<close>.
\<close>

definition le_int :: "byte list \<Rightarrow> int" where
  "le_int bs = foldr (\<lambda>b acc. uint b + 256 * acc) bs 0"

definition curve_p :: int where
  "curve_p = 2 ^ 255 - 19"

definition is_montgomery_u :: "byte list \<Rightarrow> byte list \<Rightarrow> bool" where
  "is_montgomery_u edwards u =
     (le_int u < curve_p
      \<and> (le_int u * (1 - le_int edwards mod 2 ^ 255)) mod curve_p
          = (1 + le_int edwards mod 2 ^ 255) mod curve_p)"

section \<open>Web3Client\<close>

text \<open>
  One \<open>fetch\<close> call either throws (a transport-level failure, the abort of the
  timeout included) or yields a response: its status, its body text, and what
  \<open>JSON.parse\<close> makes of the text (\<open>None\<close> when it throws).
\<close>

datatype fetch_outcome =
    FetchFailed string
  | Response nat string "json option"

definition response_ok :: "nat \<Rightarrow> bool" where
  "response_ok st = (200 \<le> st \<and> st \<le> 299)"

subsection \<open>The shared key\<close>

text \<open>
  The module keeps the public key of the Route bot in the variable
  \<open>cachedRouteBotPublicKey\<close>, which all clients of the module share. A client keeps the
  promise of its shared key, settled with the key or with the error, in its field
  \<open>sharedKeyPromise\<close>.
\<close>

record module_state =
  cachedRouteBotPublicKey :: "byte list option"

datatype session_error =
    SessionFetchThrew string
  | SessionHttpStatus nat string
  | SessionApiError "json option"
  | SessionInvalidResponse

datatype shared_key_error =
    SessionUnavailable session_error
  | KeyExchangeFailed string

record web3_client =
  client_keystore :: keystore
  retryCount :: nat
  retryDelay :: nat
  sharedKeyPromise :: "(shared_key_error + byte list) option"

text \<open>The options of the constructor: \<open>options.retryCount || 0\<close>, \<open>options.retryDelay || 1000\<close>.\<close>

record web3_client_options =
  opt_retryCount :: "nat option"
  opt_retryDelay :: "nat option"

definition or_default :: "nat option \<Rightarrow> nat \<Rightarrow> nat" where
  "or_default v d = (case v of None \<Rightarrow> d | Some n \<Rightarrow> (if n = 0 then d else n))"

definition new_Web3Client :: "keystore \<Rightarrow> web3_client_options \<Rightarrow> web3_client" where
  "new_Web3Client ks options =
     \<lparr>client_keystore = ks,
      retryCount = or_default (opt_retryCount options) 0,
      retryDelay = or_default (opt_retryDelay options) 1000,
      sharedKeyPromise = None\<rparr>"

text \<open>\<open>result.error && result.error.code > 0\<close>, for a code that is a number.\<close>

definition session_api_error :: "json \<Rightarrow> bool" where
  "session_api_error result =
     (case member result ''error'' of
        Some e \<Rightarrow> truthy e \<and> (case member e ''code'' of Some (JNum n) \<Rightarrow> 0 < n | _ \<Rightarrow> False)
      | None \<Rightarrow> False)"

text \<open>
  \<open>result.data[0].public_key\<close> when \<open>result.data\<close> is an array that is not empty, its
  first element is truthy and has a \<open>public_key\<close> that is a text and not empty.
  A \<open>public_key\<close> that is truthy and not a text makes \<open>base64URLDecode\<close> throw; it is
  counted here with the invalid responses, both being errors thrown by
  \<open>fetchUserSession\<close> with nothing written to the module.
\<close>

definition session_public_key :: "json \<Rightarrow> string option" where
  "session_public_key result =
     (case member result ''data'' of
        Some (JArr (session # others)) \<Rightarrow>
          (case member session ''public_key'' of
             Some (JStr pk) \<Rightarrow> (if pk \<noteq> [] then Some pk else None)
           | _ \<Rightarrow> None)
      | _ \<Rightarrow> None)"

text \<open>
  \<open>fetchUserSession\<close>, given what the call of \<open>/sessions/fetch\<close> would answer: the text of
  the public key or the error thrown, the state of the module afterwards, and how many
  calls went out.
\<close>

record session_result =
  session_key :: "session_error + string"
  module_after :: module_state
  session_calls :: nat

definition fetchUserSession :: "module_state \<Rightarrow> fetch_outcome \<Rightarrow> session_result" where
  "fetchUserSession m answer =
     (case cachedRouteBotPublicKey m of
        Some k \<Rightarrow> \<lparr>session_key = Inr (base64URLEncode k), module_after = m, session_calls = 0\<rparr>
      | None \<Rightarrow>
          (case answer of
             FetchFailed msg \<Rightarrow>
               \<lparr>session_key = Inl (SessionFetchThrew msg), module_after = m, session_calls = 1\<rparr>
           | Response st body parsed \<Rightarrow>
               (if \<not> response_ok st then
                  \<lparr>session_key = Inl (SessionHttpStatus st body), module_after = m,
                   session_calls = 1\<rparr>
                else
                  (case parsed of
                     None \<Rightarrow>
                       \<lparr>session_key = Inl SessionInvalidResponse, module_after = m,
                        session_calls = 1\<rparr>
                   | Some result \<Rightarrow>
                       (if session_api_error result then
                          \<lparr>session_key =
                             Inl (SessionApiError (opt_member (member result ''error'') ''description'')),
                           module_after = m, session_calls = 1\<rparr>
                        else
                          (case session_public_key result of
                             Some pk \<Rightarrow>
                               \<lparr>session_key = Inr pk,
                                module_after =
                                  m\<lparr>cachedRouteBotPublicKey := Some (base64URLDecode pk)\<rparr>,
                                session_calls = 1\<rparr>
                           | None \<Rightarrow>
                               \<lparr>session_key = Inl SessionInvalidResponse, module_after = m,
                                session_calls = 1\<rparr>))))))"

text \<open>
  \<open>getSharedKey\<close>: the promise of the client when it has one; otherwise the public key
  is fetched, the key derived, and the promise kept, whatever it settled with.
\<close>

record shared_key_result =
  shared_key :: "shared_key_error + byte list"
  module_state_after :: module_state
  client_after :: web3_client
  calls_made :: nat

definition getSharedKey ::
  "primitives \<Rightarrow> fetch_outcome \<Rightarrow> module_state \<Rightarrow> web3_client \<Rightarrow> shared_key_result"
where
  "getSharedKey prim answer m c =
     (case sharedKeyPromise c of
        Some p \<Rightarrow>
          \<lparr>shared_key = p, module_state_after = m, client_after = c, calls_made = 0\<rparr>
      | None \<Rightarrow>
          (let s = fetchUserSession m answer;
               p = (case session_key s of
                      Inl e \<Rightarrow> Inl (SessionUnavailable e)
                    | Inr pk \<Rightarrow>
                        (case generateSharedKey prim (client_keystore c) pk of
                           Inl msg \<Rightarrow> Inl (KeyExchangeFailed msg)
                         | Inr k \<Rightarrow> Inr k))
           in \<lparr>shared_key = p, module_state_after = module_after s,
               client_after = c\<lparr>sharedKeyPromise := Some p\<rparr>,
               calls_made = session_calls s\<rparr>))"

subsection \<open>The signature\<close>

text \<open>
  \<open>signRequest\<close>, given what \<open>getSharedKey\<close> gave. With the shared key: the
  HMAC-SHA256, under the key, of the timestamp in decimal, the method in upper case,
  the uri and the body; then the id of the application and the digest, in URL-safe
  base64 without padding. The error of \<open>getSharedKey\<close> is thrown on.
\<close>

definition signed_data :: "string \<Rightarrow> string \<Rightarrow> string \<Rightarrow> nat \<Rightarrow> string" where
  "signed_data method uri body timestamp =
     decimal (int timestamp) @ toUpperCase method @ uri @ body"

definition signRequest ::
  "primitives \<Rightarrow> keystore \<Rightarrow> shared_key_error + byte list
     \<Rightarrow> string \<Rightarrow> string \<Rightarrow> string \<Rightarrow> nat \<Rightarrow> shared_key_error + string"
where
  "signRequest prim ks key_result method uri body timestamp =
     (case key_result of
        Inl e \<Rightarrow> Inl e
      | Inr sharedKey \<Rightarrow>
          Inr (base64URLEncode
                 (utf8_bytes (app_id ks)
                  @ hmac_sha256 prim sharedKey
                      (utf8_bytes (signed_data method uri body timestamp)))))"

text \<open>\<open>body ? JSON.stringify(body) : ""\<close>, the body given as its JSON text.\<close>

definition bodyString :: "string option \<Rightarrow> string" where
  "bodyString body = (case body of None \<Rightarrow> [] | Some json_text \<Rightarrow> json_text)"

subsection \<open>Responses and the retry loop\<close>

text \<open>How the message of a \<open>MixinRouteAPIError\<close> was built.\<close>

datatype error_message =
    FromDescription "json option"
  | HttpStatusAndBody nat string

record api_error =
  statusCode :: nat
  code :: "json option"
  description :: "json option"
  rawBody :: string
  range :: "json option"
  message :: error_message

datatype request_error =
    MixinRouteAPIError api_error
  | FetchError string
  | JsonSyntaxError
  | RequestFailed
  | SharedKeyError shared_key_error

text \<open>The body of the \<open>try\<close> block of one attempt, after \<open>fetch\<close> returned.\<close>

fun handle_response :: "fetch_outcome \<Rightarrow> request_error + json" where
  "handle_response (FetchFailed m) = Inl (FetchError m)"
| "handle_response (Response st errorBody parsed) =
     (if \<not> response_ok st \<or> st = 202 then
        (case opt_member parsed ''error'' of
           Some e \<Rightarrow>
             (if truthy e then
                Inl (MixinRouteAPIError
                  \<lparr>statusCode = st, code = member e ''code'',
                   description = member e ''description'', rawBody = errorBody,
                   range = opt_member (member e ''extra'') ''range'',
                   message = FromDescription (member e ''description'')\<rparr>)
              else
                Inl (MixinRouteAPIError
                  \<lparr>statusCode = st, code = None, description = None,
                   rawBody = errorBody, range = None,
                   message = HttpStatusAndBody st errorBody\<rparr>))
         | None \<Rightarrow>
             Inl (MixinRouteAPIError
               \<lparr>statusCode = st, code = None, description = None,
                rawBody = errorBody, range = None,
                message = HttpStatusAndBody st errorBody\<rparr>))
      else
        (case parsed of
           None \<Rightarrow> Inl JsonSyntaxError
         | Some result \<Rightarrow>
             (if has_data result then Inr (the (member result ''data''))
              else Inr result)))"

text \<open>The test of the \<open>catch\<close> block: a \<open>MixinRouteAPIError\<close> with a 4xx status.\<close>

fun is_4xx :: "request_error \<Rightarrow> bool" where
  "is_4xx (MixinRouteAPIError e) = (400 \<le> statusCode e \<and> statusCode e < 500)"
| "is_4xx _ = False"

text \<open>
  What one call of \<open>doRequest\<close> did: what it returned or threw, how many times it
  called \<open>fetch\<close>, and the delays it waited, in order.
\<close>

record run =
  outcome :: "request_error + json"
  attempts :: nat
  delays :: "nat list"

text \<open>
  The loop \<open>for (let attempt = 0; attempt <= this.retryCount; attempt++)\<close>, with
  \<open>count\<close> for \<open>this.retryCount\<close> and \<open>pause\<close> for \<open>this.retryDelay\<close>. The transport
  is given as the outcome of the \<open>fetch\<close> call of each attempt.
\<close>

function request_loop ::
  "nat \<Rightarrow> nat \<Rightarrow> (nat \<Rightarrow> fetch_outcome) \<Rightarrow> nat \<Rightarrow> request_error option \<Rightarrow> nat list \<Rightarrow> run"
where
  "request_loop count pause transport attempt lastError waited =
     (if attempt \<le> count then
        (case handle_response (transport attempt) of
           Inr payload \<Rightarrow> \<lparr>outcome = Inr payload, attempts = attempt + 1, delays = waited\<rparr>
         | Inl e \<Rightarrow>
             (if is_4xx e then \<lparr>outcome = Inl e, attempts = attempt + 1, delays = waited\<rparr>
              else request_loop count pause transport (attempt + 1) (Some e)
                     (if attempt < count then waited @ [pause] else waited)))
      else
        \<lparr>outcome = Inl (case lastError of Some e \<Rightarrow> e | None \<Rightarrow> RequestFailed),
         attempts = attempt, delays = waited\<rparr>)"
  by pat_completeness auto
termination
  by (relation "measure (\<lambda>(rc, rd, t, a, l, w). rc + 1 - a)") auto

declare request_loop.simps [simp del]

text \<open>
  \<open>doRequest\<close>, given what \<open>signRequest\<close> gave (the signature, or the error of
  \<open>getSharedKey\<close>) and the transport. The signature is made before the loop, outside
  its \<open>try\<close>: an error of \<open>signRequest\<close> is thrown to the caller and no \<open>fetch\<close> is
  made.
\<close>

definition doRequest ::
  "web3_client \<Rightarrow> shared_key_error + string \<Rightarrow> (nat \<Rightarrow> fetch_outcome) \<Rightarrow> run"
where
  "doRequest c signature transport =
     (case signature of
        Inl e \<Rightarrow> \<lparr>outcome = Inl (SharedKeyError e), attempts = 0, delays = []\<rparr>
      | Inr sg \<Rightarrow> request_loop (retryCount c) (retryDelay c) transport 0 None [])"

text \<open>
  An attempt whose outcome sends the loop on to the next attempt: the \<open>catch\<close> block
  rethrows only a \<open>MixinRouteAPIError\<close> with a 4xx status.
\<close>

definition retried_failure :: "fetch_outcome \<Rightarrow> bool" where
  "retried_failure r = (case handle_response r of Inl e \<Rightarrow> \<not> is_4xx e | Inr v \<Rightarrow> False)"


section \<open>The swap service\<close>

record quote_resp_view =
  inputMint :: string
  inAmount :: string
  outputMint :: string
  outAmount :: string
  payload :: string

record swap_request =
  payer :: string
  req_inputMint :: string
  req_outputMint :: string
  req_inputAmount :: string
  req_payload :: string
  referral :: "string option"

record swap_resp_view =
  tx :: string
  resp_quote :: quote_resp_view

record swap_tx =
  trace :: string
  payee :: string
  tx_asset :: string
  tx_amount :: string
  memo :: string
  tx_orderId :: string

text \<open>
  The two calls of \<open>Web3Client\<close> that the service makes, each with what the call
  returns or throws; and the calls a run of the service issued.
\<close>

record route_client =
  client_getQuote :: "string \<Rightarrow> string \<Rightarrow> string \<Rightarrow> request_error + quote_resp_view"
  client_swap :: "swap_request \<Rightarrow> request_error + swap_resp_view"

datatype api_call =
    GetQuote string string string
  | PostSwap swap_request

datatype service_error =
    AmountOutOfRange "json option" "json option"
  | NoAvailableQuote
  | InvalidSwapConfiguration
  | Rethrown request_error

fun error_code :: "request_error \<Rightarrow> json option" where
  "error_code (MixinRouteAPIError e) = code e"
| "error_code _ = None"

fun error_range :: "request_error \<Rightarrow> json option" where
  "error_range (MixinRouteAPIError e) = range e"
| "error_range _ = None"

definition getSwapQuote ::
  "route_client \<Rightarrow> string \<Rightarrow> string \<Rightarrow> string \<Rightarrow> service_error + quote_resp_view"
where
  "getSwapQuote client inputAssetId outputAssetId amt =
     (case client_getQuote client inputAssetId outputAssetId amt of
        Inr q \<Rightarrow> Inr q
      | Inl err \<Rightarrow>
          (if error_code err = Some (JNum 10614) then
             Inl (AmountOutOfRange (opt_member (error_range err) ''min'')
                                   (opt_member (error_range err) ''max''))
           else if error_code err = Some (JNum 10615) then Inl NoAvailableQuote
           else if error_code err = Some (JNum 10611) then Inl InvalidSwapConfiguration
           else Inl (Rethrown err)))"

record execute_params =
  payerUserId :: string
  inputAssetId :: string
  outputAssetId :: string
  inputAmount :: string
  referralUserId :: "string option"

definition createSwap ::
  "route_client \<Rightarrow> execute_params \<Rightarrow> string \<Rightarrow> service_error + swap_resp_view"
where
  "createSwap client p pl =
     (case client_swap client
             \<lparr>payer = payerUserId p, req_inputMint = inputAssetId p,
              req_outputMint = outputAssetId p, req_inputAmount = inputAmount p,
              req_payload = pl, referral = referralUserId p\<rparr> of
        Inr r \<Rightarrow> Inr r
      | Inl err \<Rightarrow> Inl (Rethrown err))"

text \<open>
  \<open>executeSwap\<close>: the quote, then the order with the payload of the quote. Beside its
  result, the calls it issued.
\<close>

definition executeSwap ::
  "route_client \<Rightarrow> execute_params
     \<Rightarrow> (service_error + quote_resp_view \<times> swap_resp_view) \<times> api_call list"
where
  "executeSwap client p =
     (case getSwapQuote client (inputAssetId p) (outputAssetId p) (inputAmount p) of
        Inl err \<Rightarrow> (Inl err, [GetQuote (inputAssetId p) (outputAssetId p) (inputAmount p)])
      | Inr q \<Rightarrow>
          (case createSwap client p (payload q) of
             Inl err \<Rightarrow> Inl err
           | Inr sw \<Rightarrow> Inr (q, sw),
           [GetQuote (inputAssetId p) (outputAssetId p) (inputAmount p),
            PostSwap \<lparr>payer = payerUserId p, req_inputMint = inputAssetId p,
              req_outputMint = outputAssetId p, req_inputAmount = inputAmount p,
              req_payload = payload q, referral = referralUserId p\<rparr>]))"

section \<open>The bulk and split components\<close>

record asset_info =
  symbol :: string
  icon_url :: string
  price_usd :: string

record balance =
  total_amount :: string
  asset :: "asset_info option"

record token_view =
  assetId :: string
  token_symbol :: string
  token_icon :: string

text \<open>The messages of \<open>toast.error\<close> and \<open>toast.success\<close>, by what they say.\<close>

datatype toast =
    PercentagesMustSumTo100
  | CreateOrderFailed string
  | AllOrdersFailed
  | PaymentSucceeded string

text \<open>\<open>balance.asset?.symbol || ""\<close> and \<open>balance.asset?.icon_url || ""\<close>.\<close>

definition symbol_of :: "balance \<Rightarrow> string" where
  "symbol_of b = (case asset b of None \<Rightarrow> [] | Some a \<Rightarrow> symbol a)"

definition icon_of :: "balance \<Rightarrow> string" where
  "icon_of b = (case asset b of None \<Rightarrow> [] | Some a \<Rightarrow> icon_url a)"

text \<open>
  What the components share: the user's id (\<open>None\<close> when there is no user), the
  referral id of the environment, the client, and \<open>decodeSwapTx\<close>, which reads the
  order id and the trace out of the payment link or throws.
\<close>

record swap_env =
  has_keystore :: bool
  user_id :: "string option"
  referUserId :: "string option"
  client :: route_client
  decodeSwapTx :: "string \<Rightarrow> string + swap_tx"
  balances :: "string \<Rightarrow> balance option"

subsection \<open>BulkSwap\<close>

record bulk_order =
  order_assetId :: string
  order_symbol :: string
  order_icon :: string
  order_inputAmount :: string
  order_outputAmount :: string
  payUrl :: string
  orderId :: string
  traceId :: string
  isPaid :: bool

record bulk_state =
  selectedAssetIds :: "string list"
  outputToken :: "token_view option"
  swapPercentage :: int
  swapOrders :: "bulk_order list"
  showPaymentModal :: bool

text \<open>What one run of a handler did beside changing the state of its component.\<close>

record effects =
  calls :: "api_call list"
  toasts :: "toast list"

text \<open>
  \<open>((totalAmount * swapPercentage) / 100).toString()\<close>, with \<open>totalAmount\<close> the
  \<open>parseFloat\<close> of the balance.
\<close>

definition bulk_inputAmount :: "balance \<Rightarrow> int \<Rightarrow> string" where
  "bulk_inputAmount b pct =
     toString (number_divide (number_times (parseFloat (total_amount b)) (number_of_int pct))
                 (number_of_int 100))"

text \<open>
  The function mapped over the selected assets: the order it returns (\<open>None\<close> for
  \<open>null\<close>), with the calls it issued and the toasts it showed.
\<close>

definition bulk_create_order ::
  "swap_env \<Rightarrow> string \<Rightarrow> token_view \<Rightarrow> int \<Rightarrow> string
     \<Rightarrow> bulk_order option \<times> effects"
where
  "bulk_create_order env uid out pct aid =
     (case balances env aid of
        None \<Rightarrow> (None, \<lparr>calls = [], toasts = []\<rparr>)
      | Some b \<Rightarrow>
          (case executeSwap (client env)
                  \<lparr>payerUserId = uid, inputAssetId = aid, outputAssetId = assetId out,
                   inputAmount = bulk_inputAmount b pct, referralUserId = referUserId env\<rparr> of
             (Inl err, cs) \<Rightarrow> (None, \<lparr>calls = cs, toasts = [CreateOrderFailed (symbol_of b)]\<rparr>)
           | (Inr (q, sw), cs) \<Rightarrow>
               (case decodeSwapTx env (tx sw) of
                  Inl err \<Rightarrow> (None, \<lparr>calls = cs, toasts = [CreateOrderFailed (symbol_of b)]\<rparr>)
                | Inr txInfo \<Rightarrow>
                    (Some \<lparr>order_assetId = aid, order_symbol = symbol_of b,
                           order_icon = icon_of b,
                           order_inputAmount = bulk_inputAmount b pct,
                           order_outputAmount = outAmount q, payUrl = tx sw,
                           orderId = tx_orderId txInfo, traceId = trace txInfo,
                           isPaid = False\<rparr>,
                     \<lparr>calls = cs, toasts = []\<rparr>))))"

text \<open>\<open>results.filter((order) => order !== null)\<close>.\<close>

definition valid_orders :: "('a option \<times> effects) list \<Rightarrow> 'a list" where
  "valid_orders results = map the (filter (\<lambda>r. r \<noteq> None) (map fst results))"

text \<open>
  \<open>handleCalculateSwap\<close> of BulkSwap. The calls and toasts of the assets are listed
  asset by asset, in the order of the selection; the calls of different assets are in
  flight together and the component does not depend on the order in which they end.
\<close>

definition bulk_handleCalculateSwap :: "swap_env \<Rightarrow> bulk_state \<Rightarrow> bulk_state \<times> effects" where
  "bulk_handleCalculateSwap env st =
     (case (has_keystore env, user_id env, outputToken st) of
        (True, Some uid, Some out) \<Rightarrow>
          (if selectedAssetIds st = [] then (st, \<lparr>calls = [], toasts = []\<rparr>)
           else
             (let results = map (bulk_create_order env uid out (swapPercentage st))
                              (selectedAssetIds st);
                  fx = \<lparr>calls = concat (map (calls \<circ> snd) results),
                        toasts = concat (map (toasts \<circ> snd) results)\<rparr>
              in if valid_orders results \<noteq> [] then
                   (st\<lparr>swapOrders := valid_orders results, showPaymentModal := True\<rparr>, fx)
                 else
                   (st\<lparr>swapOrders := []\<rparr>, fx\<lparr>toasts := toasts fx @ [AllOrdersFailed]\<rparr>)))
      | _ \<Rightarrow> (st, \<lparr>calls = [], toasts = []\<rparr>))"

subsection \<open>The payment polling of BulkSwap\<close>

text \<open>
  What \<open>mixinClient.utxo.fetchTransaction\<close> gives for a trace: a transaction with its
  state, nothing, or an error, of which the handler reads \<open>error?.response?.status\<close>
  (\<open>None\<close> when the error has none).
\<close>

datatype ledger_outcome =
    Transaction string
  | NoTransaction
  | FetchThrows "nat option"

text \<open>
  The state the polling effect works on: the orders, the toasts shown and the errors
  written to the console so far, the \<open>pollingFlags\<close> of the effect, and whether its
  interval is set.
\<close>

record poll_state =
  poll_orders :: "bulk_order list"
  poll_toasts :: "toast list"
  console_errors :: "(string \<times> nat option) list"
  pollingFlags :: "string set"
  interval_set :: bool

text \<open>
  \<open>checkPaymentStatus\<close> up to its \<open>await\<close>, for each order of the list in turn: an
  order whose flag is set, or that is paid, is left out; the flag of every other one is
  set, and its call is in flight.
\<close>

fun start_checks :: "string set \<Rightarrow> bulk_order list \<Rightarrow> string set \<times> bulk_order list" where
  "start_checks flags [] = (flags, [])"
| "start_checks flags (ord # ords) =
     (if traceId ord \<in> flags \<or> isPaid ord then start_checks flags ords
      else (fst (start_checks (insert (traceId ord) flags) ords),
            ord # snd (start_checks (insert (traceId ord) flags) ords)))"

text \<open>\<open>checkPaymentStatus\<close> from its \<open>await\<close> on: the \<open>try\<close>, the \<open>catch\<close>, the \<open>finally\<close>.\<close>

definition finish_check :: "ledger_outcome \<Rightarrow> bulk_order \<Rightarrow> poll_state \<Rightarrow> poll_state" where
  "finish_check r ord st =
     (case r of
        Transaction s \<Rightarrow>
          (if s = ''spent'' then
             st\<lparr>poll_orders :=
                   map (\<lambda>x. if traceId x = traceId ord then x\<lparr>isPaid := True\<rparr> else x)
                     (poll_orders st),
                 poll_toasts := poll_toasts st @ [PaymentSucceeded (order_symbol ord)]\<rparr>
           else st)
      | NoTransaction \<Rightarrow> st
      | FetchThrows status \<Rightarrow>
          (if status \<noteq> Some 404 then
             st\<lparr>console_errors := console_errors st @ [(order_symbol ord, status)]\<rparr>
           else st))
     \<lparr>pollingFlags := pollingFlags st - {traceId ord}\<rparr>"

text \<open>\<open>checkAllPayments\<close>, with the ledger's answer for each trace.\<close>

definition checkAllPayments :: "(string \<Rightarrow> ledger_outcome) \<Rightarrow> poll_state \<Rightarrow> poll_state" where
  "checkAllPayments ledger st =
     foldl (\<lambda>s ord. finish_check (ledger (traceId ord)) ord s)
       (st\<lparr>pollingFlags := fst (start_checks (pollingFlags st) (poll_orders st))\<rparr>)
       (snd (start_checks (pollingFlags st) (poll_orders st)))"

text \<open>
  The effect: nothing when the payment modal is closed or there is no order; otherwise
  a first check at once, and the interval set. The interval then runs the check every
  5 seconds until the cleanup of the effect clears it.
\<close>

definition start_polling ::
  "bool \<Rightarrow> (string \<Rightarrow> ledger_outcome) \<Rightarrow> poll_state \<Rightarrow> poll_state"
where
  "start_polling modal ledger st =
     (if \<not> modal \<or> poll_orders st = [] then st
      else (checkAllPayments ledger st)\<lparr>interval_set := True\<rparr>)"

definition interval_tick :: "(string \<Rightarrow> ledger_outcome) \<Rightarrow> poll_state \<Rightarrow> poll_state" where
  "interval_tick ledger st = (if interval_set st then checkAllPayments ledger st else st)"

definition cleanup_polling :: "poll_state \<Rightarrow> poll_state" where
  "cleanup_polling st = st\<lparr>interval_set := False, pollingFlags := {}\<rparr>"

text \<open>The ticks of the interval, one ledger answer after the other.\<close>

fun interval_ticks :: "(string \<Rightarrow> ledger_outcome) list \<Rightarrow> poll_state \<Rightarrow> poll_state" where
  "interval_ticks [] st = st"
| "interval_ticks (ledger # ledgers) st = interval_ticks ledgers (interval_tick ledger st)"

text \<open>An answer of the ledger that is an error for every trace.\<close>

definition all_errors :: "(string \<Rightarrow> ledger_outcome) \<Rightarrow> bool" where
  "all_errors ledger = (\<forall>tr. \<exists>status. ledger tr = FetchThrows status)"

text \<open>The errors a check writes to the console: those of the calls in flight whose
  status is not 404.\<close>

definition logged_errors ::
  "(string \<Rightarrow> ledger_outcome) \<Rightarrow> poll_state \<Rightarrow> (string \<times> nat option) list"
where
  "logged_errors ledger st =
     concat (map (\<lambda>ord. case ledger (traceId ord) of
                           FetchThrows status \<Rightarrow>
                             (if status \<noteq> Some 404 then [(order_symbol ord, status)] else [])
                         | _ \<Rightarrow> [])
               (snd (start_checks (pollingFlags st) (poll_orders st))))"

subsection \<open>SplitSwap\<close>

record buy_token =
  token :: token_view
  percentage :: int
  price :: number

record split_order =
  targetAssetId :: string
  targetSymbol :: string
  targetIcon :: string
  split_inputAmount :: string
  split_outputAmount :: string
  split_payUrl :: string
  split_orderId :: string
  split_traceId :: string
  split_isPaid :: bool



text \<open>
  \<open>totalSellAmount = totalAmount * (sellPercentage / 100)\<close> and
  \<open>sellAmount = (totalSellAmount * buyToken.percentage) / 100\<close>, then \<open>toString\<close>.
\<close>

definition split_sellAmount :: "balance \<Rightarrow> int \<Rightarrow> int \<Rightarrow> string" where
  "split_sellAmount b sellPct pct =
     toString
       (number_divide
          (number_times
             (number_times (parseFloat (total_amount b))
                (number_divide (number_of_int sellPct) (number_of_int 100)))
             (number_of_int pct))
          (number_of_int 100))"

definition split_create_order ::
  "swap_env \<Rightarrow> string \<Rightarrow> string \<Rightarrow> balance \<Rightarrow> int \<Rightarrow> buy_token
     \<Rightarrow> split_order option \<times> effects"
where
  "split_create_order env uid aid b sellPct bt =
     (case executeSwap (client env)
             \<lparr>payerUserId = uid, inputAssetId = aid, outputAssetId = assetId (token bt),
              inputAmount = split_sellAmount b sellPct (percentage bt),
              referralUserId = referUserId env\<rparr> of
        (Inl err, cs) \<Rightarrow>
          (None, \<lparr>calls = cs, toasts = [CreateOrderFailed (token_symbol (token bt))]\<rparr>)
      | (Inr (q, sw), cs) \<Rightarrow>
          (case decodeSwapTx env (tx sw) of
             Inl err \<Rightarrow>
               (None, \<lparr>calls = cs, toasts = [CreateOrderFailed (token_symbol (token bt))]\<rparr>)
           | Inr txInfo \<Rightarrow>
               (Some \<lparr>targetAssetId = assetId (token bt),
                      targetSymbol = token_symbol (token bt),
                      targetIcon = token_icon (token bt),
                      split_inputAmount = split_sellAmount b sellPct (percentage bt),
                      split_outputAmount = outAmount q, split_payUrl = tx sw,
                      split_orderId = tx_orderId txInfo, split_traceId = trace txInfo,
                      split_isPaid = False\<rparr>,
                \<lparr>calls = cs, toasts = []\<rparr>)))"


subsection \<open>Order creation, as the service decides it\<close>




section \<open>Example clients and transports\<close>

text \<open>
  A keystore, and a client made from it with a given retry count and the default retry
  delay; a signature, whose text plays no part in what follows.
\<close>

definition example_keystore :: keystore where
  "example_keystore =
     \<lparr>app_id = ''0b1ea1d2-7d4c-4bd6-9a5e-3f2a6f0c9e11'',
      session_private_key =
        ''000102030405060708090a0b0c0d0e0f101112131415161718191a1b1c1d1e1f''\<rparr>"

definition client_with_retries :: "nat \<Rightarrow> web3_client" where
  "client_with_retries r =
     new_Web3Client example_keystore \<lparr>opt_retryCount = Some r, opt_retryDelay = None\<rparr>"

text \<open>
  Stand-ins for the three primitives, for the examples: they have the lengths of the
  primitives and the check of the lengths of their inputs, and none of their
  cryptography. A second X25519 gives back the coordinate it was handed, so that an
  example can show which coordinate that was.
\<close>

definition example_primitives :: primitives where
  "example_primitives =
     \<lparr>sha512 = (\<lambda>m. replicate 64 (of_nat (length m))),
      x25519 = (\<lambda>k u. if length k = 32 \<and> length u = 32 then Inr (map2 (\<lambda>a b. a XOR b) k u)
                       else Inl ''invalid key length''),
      hmac_sha256 = (\<lambda>k m. replicate 32 (of_nat (length m)))\<rparr>"

definition probe_primitives :: primitives where
  "probe_primitives = example_primitives\<lparr>x25519 := (\<lambda>k u. Inr u)\<rparr>"

text \<open>
  The base point of Ed25519 in its Edwards form, and the number 9, the coordinate of
  the base point of X25519, both as 32 bytes.
\<close>

definition ed25519_base_point :: "byte list" where
  "ed25519_base_point = 0x58 # replicate 31 0x66"

definition x25519_base_point :: "byte list" where
  "x25519_base_point = 9 # replicate 31 0"


definition other_keystore :: keystore where
  "other_keystore =
     \<lparr>app_id = ''7c9f2b7e-52a1-4d0e-8a3b-1e5d0c4f6a22'',
      session_private_key =
        ''1f1e1d1c1b1a191817161514131211100f0e0d0c0b0a09080706050403020100''\<rparr>"

definition bot_public_key :: string where
  "bot_public_key = ''AAECAwQFBgcICQoLDA0ODxAREhMUFRYXGBkaGxwdHh8''"

definition session_answer :: fetch_outcome where
  \<open>session_answer =
     Response 200 ''{"data":[{"public_key":"AAECAwQFBgcICQoLDA0ODxAREhMUFRYXGBkaGxwdHh8"}]}''
       (Some (JObj [(''data'', JArr [JObj [(''public_key'', JStr bot_public_key)]])]))\<close>



text \<open>
  A first client asks for its shared key while the module has no public key and the
  session call answers; a second client is made from another keystore.
\<close>

definition first_run :: shared_key_result where
  "first_run =
     getSharedKey example_primitives session_answer \<lparr>cachedRouteBotPublicKey = None\<rparr>
       (client_with_retries 0)"

definition second_client :: web3_client where
  "second_client =
     new_Web3Client other_keystore \<lparr>opt_retryCount = None, opt_retryDelay = None\<rparr>"

definition sg0 :: string where
  "sg0 = ''c2lnbmF0dXJl''"


text \<open>Three 503 responses, then a 200 with a \<open>data\<close> envelope.\<close>

definition five_xx_then_ok :: "nat \<Rightarrow> fetch_outcome" where
  \<open>five_xx_then_ok i =
     (if i < 3 then Response 503 ''Service Unavailable'' None
      else Response 200 ''{"data":"ok"}'' (Some (JObj [(''data'', JStr ''ok'')])))\<close>

text \<open>A 202 response, then a 200 with a \<open>data\<close> envelope.\<close>

definition accepted_then_ok :: "nat \<Rightarrow> fetch_outcome" where
  \<open>accepted_then_ok i =
     (if i = 0 then Response 202 ''Accepted'' None
      else Response 200 ''{"data":"ok"}'' (Some (JObj [(''data'', JStr ''ok'')])))\<close>

text \<open>A 500 response whose body is not JSON, on every attempt.\<close>

definition plain_text_500 :: "nat \<Rightarrow> fetch_outcome" where
  "plain_text_500 i = Response 500 ''Internal Server Error'' None"

section \<open>Example components\<close>

text \<open>
  A client whose quotes fail for the asset \<open>eth\<close>, as input or as output, and succeed
  for every other pair; its orders always succeed.
\<close>

definition example_getQuote ::
  "string \<Rightarrow> string \<Rightarrow> string \<Rightarrow> request_error + quote_resp_view"
where
  "example_getQuote i ou a =
     (if i = ''eth'' \<or> ou = ''eth'' then Inl (FetchError ''timeout'')
      else Inr \<lparr>inputMint = i, inAmount = a, outputMint = ou,
                outAmount = ''63.667264'', payload = ''P''\<rparr>)"

definition example_swap :: "swap_request \<Rightarrow> request_error + swap_resp_view" where
  "example_swap r =
     Inr \<lparr>tx = ''mixin://mixin.one/pay/route?memo='' @ req_inputMint r @ ''-'' @ req_outputMint r,
          resp_quote = \<lparr>inputMint = req_inputMint r, inAmount = req_inputAmount r,
                        outputMint = req_outputMint r, outAmount = ''63.667264'',
                        payload = req_payload r\<rparr>\<rparr>"

definition example_decode :: "string \<Rightarrow> string + swap_tx" where
  "example_decode u =
     Inr \<lparr>trace = ''trace of '' @ u, payee = ''route'', tx_asset = [], tx_amount = ''1'',
          memo = drop 32 u, tx_orderId = drop 32 u\<rparr>"

definition example_balances :: "string \<Rightarrow> balance option" where
  "example_balances =
     map_of
       [(''btc'', \<lparr>total_amount = ''1.1'',
                   asset = Some \<lparr>symbol = ''BTC'', icon_url = [], price_usd = ''60000''\<rparr>\<rparr>),
        (''eth'', \<lparr>total_amount = ''2'',
                   asset = Some \<lparr>symbol = ''ETH'', icon_url = [], price_usd = ''3000''\<rparr>\<rparr>),
        (''sol'', \<lparr>total_amount = ''30'',
                   asset = Some \<lparr>symbol = ''SOL'', icon_url = [], price_usd = ''150''\<rparr>\<rparr>)]"

definition example_env :: swap_env where
  "example_env =
     \<lparr>has_keystore = True, user_id = Some ''user'', referUserId = None,
      client = \<lparr>client_getQuote = example_getQuote, client_swap = example_swap\<rparr>,
      decodeSwapTx = example_decode, balances = example_balances\<rparr>"

definition xin :: token_view where
  "xin = \<lparr>assetId = ''xin'', token_symbol = ''XIN'', token_icon = []\<rparr>"

text \<open>All three assets selected, to be converted into \<open>xin\<close> at 33 percent.\<close>

definition example_bulk :: bulk_state where
  "example_bulk =
     \<lparr>selectedAssetIds = [''btc'', ''eth'', ''sol''], outputToken = Some xin,
      swapPercentage = 33, swapOrders = [], showPaymentModal = False\<rparr>"


text \<open>Two unpaid orders on display, the interval set.\<close>

definition example_order :: "string \<Rightarrow> string \<Rightarrow> bulk_order" where
  "example_order sb tr =
     \<lparr>order_assetId = sb, order_symbol = sb, order_icon = [],
      order_inputAmount = ''1'', order_outputAmount = ''63.667264'',
      payUrl = ''mixin://mixin.one/pay/route'', orderId = ''order '' @ tr,
      traceId = tr, isPaid = False\<rparr>"

definition example_poll :: poll_state where
  "example_poll =
     \<lparr>poll_orders = [example_order ''BTC'' ''t1'', example_order ''SOL'' ''t2''],
      poll_toasts = [], console_errors = [], pollingFlags = {}, interval_set = True\<rparr>"

text \<open>
  The ledger knows no trace yet; the ledger answers 500 for \<open>t1\<close> and knows no \<open>t2\<close>;
  the ledger has \<open>t1\<close> spent and knows no \<open>t2\<close>.
\<close>

definition ledger_not_found :: "string \<Rightarrow> ledger_outcome" where
  "ledger_not_found tr = FetchThrows (Some 404)"

definition ledger_failing :: "string \<Rightarrow> ledger_outcome" where
  "ledger_failing tr = (if tr = ''t1'' then FetchThrows (Some 500) else FetchThrows (Some 404))"

definition ledger_spent :: "string \<Rightarrow> ledger_outcome" where
  "ledger_spent tr = (if tr = ''t1'' then Transaction ''spent'' else FetchThrows (Some 404))"

section \<open>Encodings\<close>

lemma byte_less: "unat (b :: byte) < 256"
  using unsigned_less [of b, where ?'a = nat] by simp

lemma div16: "y < 256 \<Longrightarrow> y div 16 < (16::nat)" by simp

lemma div64: "z < 256 \<Longrightarrow> z div 64 < (4::nat)" by simp

lemma sextet_join_1: "y < 256 \<Longrightarrow> x div 4 * 4 + (x mod 4 * 16 + y div 16) div 16 = (x :: nat)"
  using div16 [of y] by simp

lemma sextet_join_2:
  "y < 256 \<Longrightarrow> z < 256 \<Longrightarrow>
   (x mod 4 * 16 + y div 16) mod 16 * 16 + (y mod 16 * 4 + z div 64) div 4 = (y :: nat)"
  using div16 [of y] div64 [of z] by simp

lemma sextet_join_3: "z < 256 \<Longrightarrow> (y mod 16 * 4 + z div 64) mod 4 * 64 + z mod 64 = (z :: nat)"
  using div64 [of z] by simp

lemma sextet_join_2': "y < 256 \<Longrightarrow> (x mod 4 * 16 + y div 16) mod 16 * 16 + (y mod 16 * 4) div 4 = (y :: nat)"
  using div16 [of y] by simp

lemma sextet_join_1': "x div 4 * 4 + (x mod 4 * 16) div 16 = (x :: nat)"
  by simp

lemma b1: "x < 256 \<Longrightarrow> x div 4 < (64::nat)" by simp

lemma b2: "y < 256 \<Longrightarrow> x mod 4 * 16 + y div 16 < (64::nat)"
proof -
  assume "y < 256"
  then have "y div 16 < 16" by simp
  moreover have "x mod 4 < 4" by simp
  then have "x mod 4 * 16 \<le> 48" by simp
  ultimately show ?thesis by simp
qed

lemma b3: "z < 256 \<Longrightarrow> y mod 16 * 4 + z div 64 < (64::nat)"
proof -
  assume "z < 256"
  then have "z div 64 < 4" by simp
  moreover have "y mod 16 < 16" by simp
  then have "y mod 16 * 4 \<le> 60" by simp
  ultimately show ?thesis by simp
qed

lemma b4: "y mod 16 * 4 < (64::nat)" 
proof -
  have "y mod 16 < 16" by simp
  then show ?thesis by simp
qed

lemma b5: "x mod 4 * 16 < (64::nat)"
proof -
  have "x mod 4 < 4" by simp
  then show ?thesis by simp
qed

lemma byte_of_unat: "(of_nat n :: byte) = b" if "n = unat b"
  using that by simp

lemma sextets_roundtrip: "sextets_to_bytes (bytes_to_sextets data) = data"
proof (induction data rule: bytes_to_sextets.induct)
  case (1 a b c rest)
  have "(of_nat (unat a div 4 * 4 + (unat a mod 4 * 16 + unat b div 16) div 16) :: byte) = a"
    by (rule byte_of_unat) (rule sextet_join_1 [OF byte_less])
  moreover have "(of_nat ((unat a mod 4 * 16 + unat b div 16) mod 16 * 16
                    + (unat b mod 16 * 4 + unat c div 64) div 4) :: byte) = b"
    by (rule byte_of_unat) (rule sextet_join_2 [OF byte_less byte_less])
  moreover have "(of_nat ((unat b mod 16 * 4 + unat c div 64) mod 4 * 64 + unat c mod 64) :: byte) = c"
    by (rule byte_of_unat) (rule sextet_join_3 [OF byte_less])
  ultimately show ?case
    using "1.IH" by (simp only: bytes_to_sextets.simps sextets_to_bytes.simps append_Cons append_Nil)
next
  case (2 a b)
  have "(of_nat (unat a div 4 * 4 + (unat a mod 4 * 16 + unat b div 16) div 16) :: byte) = a"
    by (rule byte_of_unat) (rule sextet_join_1 [OF byte_less])
  moreover have "(of_nat ((unat a mod 4 * 16 + unat b div 16) mod 16 * 16
                    + (unat b mod 16 * 4) div 4) :: byte) = b"
    by (rule byte_of_unat) (rule sextet_join_2' [OF byte_less])
  ultimately show ?case
    by (simp only: bytes_to_sextets.simps sextets_to_bytes.simps)
next
  case (3 a)
  have "(of_nat (unat a div 4 * 4 + (unat a mod 4 * 16) div 16) :: byte) = a"
    by (rule byte_of_unat) (rule sextet_join_1')
  then show ?case
    by (simp only: bytes_to_sextets.simps sextets_to_bytes.simps)
next
  case 4
  show ?case by simp
qed

lemma sextets_bound: "\<forall>i \<in> set (bytes_to_sextets data). i < 64"
  by (induction data rule: bytes_to_sextets.induct) (simp_all add: b1 b2 b3 b4 b5 byte_less)

lemma takeWhile_nth_distinct:
  "distinct xs \<Longrightarrow> i < length xs \<Longrightarrow> takeWhile (\<lambda>x. x \<noteq> xs ! i) xs = take i xs"
proof (induction xs arbitrary: i)
  case Nil
  then show ?case by simp
next
  case (Cons x xs)
  show ?case
  proof (cases i)
    case 0
    then show ?thesis by simp
  next
    case (Suc j)
    with Cons.prems have "xs ! j \<in> set xs" "x \<notin> set xs" by auto
    then have "x \<noteq> xs ! j" by auto
    with Cons Suc show ?thesis by simp
  qed
qed

lemma alphabet_length: "length base64_alphabet = 64"
  by (simp add: base64_alphabet_def)

lemma alphabet_distinct: "distinct base64_alphabet"
  by (simp add: base64_alphabet_def)

lemma base64_index_nth: "i < 64 \<Longrightarrow> base64_index (base64_alphabet ! i) = i"
  using takeWhile_nth_distinct [OF alphabet_distinct, of i]
  by (simp add: base64_index_def alphabet_length)

lemma alphabet_plain:
  "c \<in> set base64_alphabet \<Longrightarrow> c \<noteq> CHR ''='' \<and> c \<noteq> CHR ''-'' \<and> c \<noteq> CHR ''_''"
  by (auto simp: base64_alphabet_def)

lemma replace_char_append:
  "replace_char x y (s @ t) = replace_char x y s @ replace_char x y t"
  by (simp add: replace_char_def)

lemma replace_char_replicate:
  "c \<noteq> x \<Longrightarrow> replace_char x y (replicate n c) = replicate n c"
  by (simp add: replace_char_def)

lemma remove_char_append: "remove_char x (s @ t) = remove_char x s @ remove_char x t"
  by (simp add: remove_char_def)

lemma remove_char_replicate: "remove_char x (replicate n x) = []"
  by (simp add: remove_char_def)

lemma length_replace_char: "length (replace_char x y s) = length s"
  by (simp add: replace_char_def)

lemma url_chars_Cons: "url_chars (c # s) = url_chars [c] @ url_chars s"
  by (simp add: url_chars_def replace_char_def)

lemma plain_chars_append: "plain_chars (s @ t) = plain_chars s @ plain_chars t"
  by (simp add: plain_chars_def replace_char_append)

lemma url_char_kept:
  "c \<in> set base64_alphabet \<Longrightarrow> remove_char CHR ''='' (url_chars [c]) = url_chars [c]"
  by (auto simp: base64_alphabet_def url_chars_def replace_char_def remove_char_def)

lemma url_char_back:
  "c \<in> set base64_alphabet \<Longrightarrow> plain_chars (url_chars [c]) = [c]"
  by (auto simp: base64_alphabet_def url_chars_def plain_chars_def replace_char_def)

lemma url_chars_kept:
  "set s \<subseteq> set base64_alphabet \<Longrightarrow> remove_char CHR ''='' (url_chars s) = url_chars s"
proof (induction s)
  case Nil
  show ?case by (simp add: url_chars_def replace_char_def remove_char_def)
next
  case (Cons c s)
  then have "c \<in> set base64_alphabet" "set s \<subseteq> set base64_alphabet" by simp_all
  then show ?case
    using Cons.IH url_char_kept [of c]
    by (simp add: url_chars_Cons [of c s] remove_char_append)
qed

lemma url_chars_back:
  "set s \<subseteq> set base64_alphabet \<Longrightarrow> plain_chars (url_chars s) = s"
proof (induction s)
  case Nil
  show ?case by (simp add: url_chars_def plain_chars_def replace_char_def)
next
  case (Cons c s)
  then have "c \<in> set base64_alphabet" "set s \<subseteq> set base64_alphabet" by simp_all
  then show ?case
    using Cons.IH url_char_back [of c]
    by (simp add: url_chars_Cons [of c s] plain_chars_append)
qed

lemma encoded_in_alphabet:
  "set (map (\<lambda>i. base64_alphabet ! i) (bytes_to_sextets data)) \<subseteq> set base64_alphabet"
  using sextets_bound [of data] by (auto simp: alphabet_length)

lemma base64URLEncode_eq:
  "base64URLEncode data = url_chars (map (\<lambda>i. base64_alphabet ! i) (bytes_to_sextets data))"
proof -
  let ?enc = "map (\<lambda>i. base64_alphabet ! i) (bytes_to_sextets data)"
  let ?n = "(3 - length data mod 3) mod 3"
  have "base64URLEncode data = remove_char CHR ''='' (url_chars (?enc @ replicate ?n CHR ''=''))"
    by (simp add: base64URLEncode_def base64_encode_def url_chars_def)
  also have "url_chars (?enc @ replicate ?n CHR ''='') = url_chars ?enc @ replicate ?n CHR ''=''"
    by (simp add: url_chars_def replace_char_append replace_char_replicate)
  finally show ?thesis
    using url_chars_kept [OF encoded_in_alphabet [of data]]
    by (simp add: remove_char_append remove_char_replicate)
qed

lemma takeWhile_append_replicate:
  "(\<forall>x \<in> set xs. P x) \<Longrightarrow> \<not> P c \<Longrightarrow> takeWhile P (xs @ replicate n c) = xs"
  by (cases n) (simp_all add: takeWhile_append2)

lemma base64_decode_padded:
  "base64_decode (map (\<lambda>i. base64_alphabet ! i) (bytes_to_sextets data) @ replicate n CHR ''='')
     = data"
proof -
  let ?sx = "bytes_to_sextets data"
  let ?enc = "map (\<lambda>i. base64_alphabet ! i) ?sx"
  have "takeWhile (\<lambda>c. c \<in> set base64_alphabet) (?enc @ replicate n CHR ''='') = ?enc"
    using encoded_in_alphabet [of data] alphabet_plain [of "CHR ''=''"]
    by (intro takeWhile_append_replicate) auto
  moreover have "map base64_index ?enc = ?sx"
    using sextets_bound [of data] by (simp add: map_idI base64_index_nth)
  ultimately show ?thesis
    by (simp add: base64_decode_def sextets_roundtrip)
qed

lemma base64URL_roundtrip: "base64URLDecode (base64URLEncode data) = data"
proof -
  let ?enc = "map (\<lambda>i. base64_alphabet ! i) (bytes_to_sextets data)"
  let ?str = "base64URLEncode data"
  let ?n = "if length ?str mod 4 \<noteq> 0 then 4 - length ?str mod 4 else 0"
  have "base64URLDecode ?str = base64_decode (plain_chars (?str @ replicate ?n CHR ''=''))"
    by (simp add: base64URLDecode_def plain_chars_def)
  also have "plain_chars (?str @ replicate ?n CHR ''='') = ?enc @ replicate ?n CHR ''=''"
    using url_chars_back [OF encoded_in_alphabet [of data]]
    by (simp add: plain_chars_append base64URLEncode_eq)
       (simp add: plain_chars_def replace_char_def)
  finally show ?thesis
    by (simp only: base64_decode_padded)
qed

section \<open>The shared secret\<close>


lemma clamp_bits:
  fixes x :: byte
  shows "\<not> bit (x AND 248) 0" "\<not> bit (x AND 248) (Suc 0)" "\<not> bit (x AND 248) 2"
    "\<not> bit ((x AND 127) OR 64) 7" "bit ((x AND 127) OR 64) 6"
  by (simp_all add: bit_and_iff bit_or_iff)

lemma clamp_bytes:
  assumes "length (h (take 32 key)) = 64"
  shows "length (ed25519PrivateToCurve25519 h key) = 32"
    and "ed25519PrivateToCurve25519 h key ! 0 = (h (take 32 key) ! 0) AND 248"
    and "ed25519PrivateToCurve25519 h key ! 31 = ((h (take 32 key) ! 31) AND 127) OR 64"
    and "0 < i \<Longrightarrow> i < 31 \<Longrightarrow> ed25519PrivateToCurve25519 h key ! i = h (take 32 key) ! i"
  using assms by (simp_all add: ed25519PrivateToCurve25519_def Let_def nth_list_update)

text \<open>
  Claim C1, as the code has it. For a keystore whose private key reads as the bytes
  \<open>seed\<close>, and a SHA-512 that gives 64 bytes: the private scalar has 32 bytes, which are
  the first 32 bytes of the SHA-512 of the first 32 bytes of the seed, but for the
  first byte, whose bits 0 to 2 are cleared, and the last byte, whose bit 7 is cleared
  and bit 6 set. The shared key is what X25519 gives for this scalar and the bytes of
  the remote public key, which are handed over as decoded, with no conversion.
\<close>

theorem shared_secret_derivation:
  "hex_decode (session_private_key ks) = seed \<and> length (sha512 prim (take 32 seed)) = 64
   \<longrightarrow>
     generateSharedKey prim ks (base64URLEncode remote)
       = x25519 prim (ed25519PrivateToCurve25519 (sha512 prim) seed) remote
   \<and> length (ed25519PrivateToCurve25519 (sha512 prim) seed) = 32
   \<and> ed25519PrivateToCurve25519 (sha512 prim) seed ! 0 = (sha512 prim (take 32 seed) ! 0) AND 248
   \<and> ed25519PrivateToCurve25519 (sha512 prim) seed ! 31
       = ((sha512 prim (take 32 seed) ! 31) AND 127) OR 64
   \<and> (\<forall>i. 0 < i \<and> i < 31 \<longrightarrow>
         ed25519PrivateToCurve25519 (sha512 prim) seed ! i = sha512 prim (take 32 seed) ! i)
   \<and> \<not> bit (ed25519PrivateToCurve25519 (sha512 prim) seed ! 0) 0
   \<and> \<not> bit (ed25519PrivateToCurve25519 (sha512 prim) seed ! 0) 1
   \<and> \<not> bit (ed25519PrivateToCurve25519 (sha512 prim) seed ! 0) 2
   \<and> \<not> bit (ed25519PrivateToCurve25519 (sha512 prim) seed ! 31) 7
   \<and> bit (ed25519PrivateToCurve25519 (sha512 prim) seed ! 31) 6"
proof
  assume a: "hex_decode (session_private_key ks) = seed \<and> length (sha512 prim (take 32 seed)) = 64"
  then have len: "length (sha512 prim (take 32 seed)) = 64" by simp
  note cb = clamp_bytes [of "sha512 prim" seed, OF len]
  have g: "generateSharedKey prim ks (base64URLEncode remote)
       = x25519 prim (ed25519PrivateToCurve25519 (sha512 prim) seed) remote"
    using a by (simp add: generateSharedKey_def base64URL_roundtrip)
  show "generateSharedKey prim ks (base64URLEncode remote)
       = x25519 prim (ed25519PrivateToCurve25519 (sha512 prim) seed) remote
   \<and> length (ed25519PrivateToCurve25519 (sha512 prim) seed) = 32
   \<and> ed25519PrivateToCurve25519 (sha512 prim) seed ! 0 = (sha512 prim (take 32 seed) ! 0) AND 248
   \<and> ed25519PrivateToCurve25519 (sha512 prim) seed ! 31
       = ((sha512 prim (take 32 seed) ! 31) AND 127) OR 64
   \<and> (\<forall>i. 0 < i \<and> i < 31 \<longrightarrow>
         ed25519PrivateToCurve25519 (sha512 prim) seed ! i = sha512 prim (take 32 seed) ! i)
   \<and> \<not> bit (ed25519PrivateToCurve25519 (sha512 prim) seed ! 0) 0
   \<and> \<not> bit (ed25519PrivateToCurve25519 (sha512 prim) seed ! 0) 1
   \<and> \<not> bit (ed25519PrivateToCurve25519 (sha512 prim) seed ! 0) 2
   \<and> \<not> bit (ed25519PrivateToCurve25519 (sha512 prim) seed ! 31) 7
   \<and> bit (ed25519PrivateToCurve25519 (sha512 prim) seed ! 31) 6"
    using g cb(1) cb(4) by (simp add: cb(2) cb(3) clamp_bits)
qed

lemma bot_public_key_bytes: "base64URLDecode bot_public_key = map of_nat [0 ..< 32]"
  unfolding bot_public_key_def by code_simp

lemma example_seed: "hex_decode (session_private_key example_keystore) = map of_nat [0 ..< 32]"
  unfolding example_keystore_def by code_simp


lemma example_scalar_length:
  "length (ed25519PrivateToCurve25519 (sha512 example_primitives) key) = 32"
  by (rule clamp_bytes(1)) (simp add: example_primitives_def)

lemma example_exchange:
  "length u = 32 \<Longrightarrow>
   x25519 example_primitives (ed25519PrivateToCurve25519 (sha512 example_primitives) key) u
     = Inr (map2 (\<lambda>a b. a XOR b)
              (ed25519PrivateToCurve25519 (sha512 example_primitives) key) u)"
  using example_scalar_length [of key] by (simp add: example_primitives_def)

text \<open>
  The seed of 32 bytes of the example keystore, with the stand-ins for the primitives.
\<close>

theorem shared_secret_derivation_witness:
  "hex_decode (session_private_key example_keystore) = map of_nat [0 ..< 32]
   \<and> length (sha512 example_primitives (take 32 (map of_nat [0 ..< 32]))) = 64
   \<and> generateSharedKey example_primitives example_keystore (base64URLEncode x25519_base_point)
       = x25519 example_primitives
           (ed25519PrivateToCurve25519 (sha512 example_primitives) (map of_nat [0 ..< 32]))
           x25519_base_point
   \<and> length (ed25519PrivateToCurve25519 (sha512 example_primitives) (map of_nat [0 ..< 32])) = 32
   \<and> \<not> bit (ed25519PrivateToCurve25519 (sha512 example_primitives) (map of_nat [0 ..< 32]) ! 31) 7
   \<and> bit (ed25519PrivateToCurve25519 (sha512 example_primitives) (map of_nat [0 ..< 32]) ! 31) 6"
proof -
  have h: "length (sha512 example_primitives (take 32 (map of_nat [0 ..< 32]))) = 64"
    by (simp add: example_primitives_def)
  from shared_secret_derivation [of example_keystore "map of_nat [0 ..< 32]" example_primitives
      x25519_base_point] example_seed h
  show ?thesis by blast
qed

text \<open>
  Claim C1 as stated says that the remote public point is converted to its Montgomery
  coordinate before the multiplication. The base point of Ed25519 has the Montgomery
  coordinate 9, and not its own bytes read as a coordinate; given the base point, the
  derivation hands X25519 the bytes of the base point as they are, as the X25519 that
  gives back its coordinate shows.
\<close>

theorem montgomery_conversion_counterexample:
  "is_montgomery_u ed25519_base_point x25519_base_point
   \<and> \<not> is_montgomery_u ed25519_base_point ed25519_base_point
   \<and> generateSharedKey probe_primitives example_keystore (base64URLEncode ed25519_base_point)
       = Inr ed25519_base_point"
proof -
  have "is_montgomery_u ed25519_base_point x25519_base_point"
    unfolding ed25519_base_point_def x25519_base_point_def by code_simp
  moreover have "\<not> is_montgomery_u ed25519_base_point ed25519_base_point"
    unfolding ed25519_base_point_def by code_simp
  moreover have "generateSharedKey probe_primitives example_keystore
      (base64URLEncode ed25519_base_point) = Inr ed25519_base_point"
    by (simp add: generateSharedKey_def probe_primitives_def base64URL_roundtrip)
  ultimately show ?thesis by blast
qed

lemma getSharedKey_cached:
  "sharedKeyPromise c = Some p \<Longrightarrow>
   getSharedKey prim answer m c
     = \<lparr>shared_key = p, module_state_after = m, client_after = c, calls_made = 0\<rparr>"
  by (simp add: getSharedKey_def)

lemma getSharedKey_client_after:
  "client_after (getSharedKey prim answer m c)
     = c\<lparr>sharedKeyPromise := Some (shared_key (getSharedKey prim answer m c))\<rparr>"
  by (cases "sharedKeyPromise c") (simp_all add: getSharedKey_def Let_def)




lemma fetch_session_answer:
  "fetchUserSession \<lparr>cachedRouteBotPublicKey = None\<rparr> session_answer
     = \<lparr>session_key = Inr bot_public_key,
        module_after = \<lparr>cachedRouteBotPublicKey = Some (map of_nat [0 ..< 32])\<rparr>,
        session_calls = 1\<rparr>"
  by (simp add: fetchUserSession_def session_answer_def response_ok_def session_api_error_def
      session_public_key_def bot_public_key_bytes)
     (simp add: bot_public_key_def)




section \<open>The caches of the shared key\<close>

text \<open>
  Claim C10, as the code has it. The promise of the shared key belongs to the client:
  a new client has none; a client that has one gets it from \<open>getSharedKey\<close> with no
  call and no look at the module; and \<open>getSharedKey\<close> writes the promise of its own
  client only. The public key of the Route bot belongs to the module: a client with
  no promise yet, in a module that has the public key, derives its shared key from
  that public key and its own private key, with no call to the network.
\<close>

theorem shared_key_cache_ownership:
  "sharedKeyPromise (new_Web3Client ks options) = None
   \<and> (sharedKeyPromise c = Some p \<longrightarrow>
        getSharedKey prim answer m c
          = \<lparr>shared_key = p, module_state_after = m, client_after = c, calls_made = 0\<rparr>)
   \<and> client_after (getSharedKey prim answer m c)
       = c\<lparr>sharedKeyPromise := Some (shared_key (getSharedKey prim answer m c))\<rparr>
   \<and> (sharedKeyPromise c = None \<and> cachedRouteBotPublicKey m = Some k \<longrightarrow>
        calls_made (getSharedKey prim answer m c) = 0
        \<and> module_state_after (getSharedKey prim answer m c) = m
        \<and> shared_key (getSharedKey prim answer m c)
            = (case x25519 prim
                      (ed25519PrivateToCurve25519 (sha512 prim)
                         (hex_decode (session_private_key (client_keystore c)))) k of
                 Inl msg \<Rightarrow> Inl (KeyExchangeFailed msg)
               | Inr key \<Rightarrow> Inr key))"
proof -
  have 1: "sharedKeyPromise (new_Web3Client ks options) = None"
    by (simp add: new_Web3Client_def)
  have 4: "calls_made (getSharedKey prim answer m c) = 0
        \<and> module_state_after (getSharedKey prim answer m c) = m
        \<and> shared_key (getSharedKey prim answer m c)
            = (case x25519 prim
                      (ed25519PrivateToCurve25519 (sha512 prim)
                         (hex_decode (session_private_key (client_keystore c)))) k of
                 Inl msg \<Rightarrow> Inl (KeyExchangeFailed msg)
               | Inr key \<Rightarrow> Inr key)"
    if "sharedKeyPromise c = None" "cachedRouteBotPublicKey m = Some k"
    using that
    by (simp add: getSharedKey_def fetchUserSession_def Let_def generateSharedKey_def
        base64URL_roundtrip)
  from 1 4 getSharedKey_cached [of c p prim answer m] getSharedKey_client_after [of prim answer m c]
  show ?thesis by blast
qed

text \<open>
  The first client, after its first call of \<open>getSharedKey\<close>, gets the same key again
  while the network is down and the module has no public key.
\<close>

theorem shared_key_cache_ownership_witness:
  "getSharedKey example_primitives (FetchFailed ''offline'') \<lparr>cachedRouteBotPublicKey = None\<rparr>
       (client_after first_run)
     = \<lparr>shared_key = shared_key first_run,
        module_state_after = \<lparr>cachedRouteBotPublicKey = None\<rparr>,
        client_after = client_after first_run, calls_made = 0\<rparr>
   \<and> \<not> isl (shared_key first_run)"
proof -
  have k: "shared_key first_run
     = Inr (map2 (\<lambda>a b. a XOR b)
              (ed25519PrivateToCurve25519 (sha512 example_primitives)
                 (hex_decode (session_private_key example_keystore)))
              (map of_nat [0 ..< 32]))"
    by (simp add: first_run_def getSharedKey_def Let_def fetch_session_answer
        client_with_retries_def new_Web3Client_def generateSharedKey_def
        bot_public_key_bytes example_exchange)
  have "sharedKeyPromise (client_after first_run) = Some (shared_key first_run)"
    unfolding first_run_def by (subst getSharedKey_client_after) simp
  with shared_key_cache_ownership [of example_keystore "\<lparr>opt_retryCount = None, opt_retryDelay = None\<rparr>"
      "client_after first_run" "shared_key first_run" example_primitives "FetchFailed ''offline''"
      "\<lparr>cachedRouteBotPublicKey = None\<rparr>" "[]"]
  show ?thesis by (simp add: k)
qed

text \<open>
  Claim C10 as stated says that a second client never observes key material cached by
  a client constructed before it. After the first client has fetched the public key of
  the Route bot, a second client, made from another keystore, gets its shared key with
  no call while the network is down; in a module without that public key it fails.
\<close>

theorem second_client_counterexample:
  "cachedRouteBotPublicKey (module_state_after first_run) = Some (map of_nat [0 ..< 32])
   \<and> calls_made (getSharedKey example_primitives (FetchFailed ''offline'')
        (module_state_after first_run) second_client) = 0
   \<and> \<not> isl (shared_key (getSharedKey example_primitives (FetchFailed ''offline'')
        (module_state_after first_run) second_client))
   \<and> shared_key (getSharedKey example_primitives (FetchFailed ''offline'')
        \<lparr>cachedRouteBotPublicKey = None\<rparr> second_client)
       = Inl (SessionUnavailable (SessionFetchThrew ''offline''))"
proof -
  have m: "module_state_after first_run = \<lparr>cachedRouteBotPublicKey = Some (map of_nat [0 ..< 32])\<rparr>"
    by (simp add: first_run_def getSharedKey_def Let_def fetch_session_answer
        client_with_retries_def new_Web3Client_def)
  have s: "sharedKeyPromise second_client = None"
    by (simp add: second_client_def new_Web3Client_def)
  show ?thesis
    by (simp add: m s getSharedKey_def fetchUserSession_def Let_def generateSharedKey_def
        base64URL_roundtrip example_exchange)
qed

section \<open>The signature\<close>

lemma length_utf8_bytes: "length (utf8_bytes s) = length s"
  by (simp add: utf8_bytes_def)

lemma url_chars_set:
  "set s \<subseteq> set base64_alphabet \<Longrightarrow>
   CHR ''='' \<notin> set (url_chars s) \<and> CHR ''+'' \<notin> set (url_chars s) \<and> CHR ''/'' \<notin> set (url_chars s)"
  using alphabet_plain by (auto simp: url_chars_def replace_char_def)

text \<open>
  Claim C2. With the shared key at hand and an HMAC-SHA256 of 32 bytes, \<open>signRequest\<close>
  gives a signature; decoded from URL-safe base64 it is the bytes of the id of the
  application followed by the HMAC, under the shared key, of the timestamp in decimal,
  the method in upper case, the uri and the body; its length is that of the id plus
  32; and the signature has no padding and none of the two characters that URL-safe
  base64 replaces. The body of a request without one is the empty text.
\<close>

theorem signRequest_signature:
  "length (hmac_sha256 prim sharedKey
             (utf8_bytes (decimal (int ts) @ toUpperCase method @ uri @ bodyString body))) = 32
   \<longrightarrow> (\<exists>sg. signRequest prim ks (Inr sharedKey) method uri (bodyString body) ts = Inr sg
          \<and> base64URLDecode sg
              = utf8_bytes (app_id ks)
                @ hmac_sha256 prim sharedKey
                    (utf8_bytes (decimal (int ts) @ toUpperCase method @ uri @ bodyString body))
          \<and> length (base64URLDecode sg) = length (app_id ks) + 32
          \<and> CHR ''='' \<notin> set sg \<and> CHR ''+'' \<notin> set sg \<and> CHR ''/'' \<notin> set sg)
       \<and> bodyString None = []"
proof
  let ?data = "decimal (int ts) @ toUpperCase method @ uri @ bodyString body"
  let ?raw = "utf8_bytes (app_id ks) @ hmac_sha256 prim sharedKey (utf8_bytes ?data)"
  let ?sg = "base64URLEncode ?raw"
  assume len: "length (hmac_sha256 prim sharedKey (utf8_bytes ?data)) = 32"
  have s: "signRequest prim ks (Inr sharedKey) method uri (bodyString body) ts = Inr ?sg"
    by (simp add: signRequest_def signed_data_def)
  have r: "base64URLDecode ?sg = ?raw"
    by (rule base64URL_roundtrip)
  have l: "length (base64URLDecode ?sg) = length (app_id ks) + 32"
    by (simp add: r len length_utf8_bytes)
  have c: "CHR ''='' \<notin> set ?sg \<and> CHR ''+'' \<notin> set ?sg \<and> CHR ''/'' \<notin> set ?sg"
    unfolding base64URLEncode_eq
    by (rule url_chars_set) (rule encoded_in_alphabet)
  from s r l c show "(\<exists>sg. signRequest prim ks (Inr sharedKey) method uri (bodyString body) ts = Inr sg
          \<and> base64URLDecode sg = ?raw
          \<and> length (base64URLDecode sg) = length (app_id ks) + 32
          \<and> CHR ''='' \<notin> set sg \<and> CHR ''+'' \<notin> set sg \<and> CHR ''/'' \<notin> set sg)
       \<and> bodyString None = []"
    by (simp add: bodyString_def)
qed

lemma decimal_example: "decimal 1700000000 = ''1700000000''"
  by code_simp

lemma toUpperCase_example: "toUpperCase ''get'' = ''GET''"
  by code_simp

text \<open>
  A request for the tokens at the timestamp 1700000000.
\<close>

theorem signRequest_signature_witness:
  "(\<exists>sg. signRequest example_primitives example_keystore (Inr (replicate 32 7)) ''get''
            ''/web3/tokens?source=mixin'' (bodyString None) 1700000000 = Inr sg
        \<and> base64URLDecode sg
            = utf8_bytes ''0b1ea1d2-7d4c-4bd6-9a5e-3f2a6f0c9e11''
              @ hmac_sha256 example_primitives (replicate 32 7)
                  (utf8_bytes ''1700000000GET/web3/tokens?source=mixin'')
        \<and> length (base64URLDecode sg) = 68)"
proof -
  have "length (hmac_sha256 example_primitives (replicate 32 7)
          (utf8_bytes (decimal (int 1700000000) @ toUpperCase ''get''
             @ ''/web3/tokens?source=mixin'' @ bodyString None))) = 32"
    by (simp add: example_primitives_def)
  with signRequest_signature [of example_primitives "replicate 32 7" 1700000000 "''get''"
      "''/web3/tokens?source=mixin''" None example_keystore]
  show ?thesis
    by (simp add: decimal_example toUpperCase_example bodyString_def example_keystore_def) blast
qed

section \<open>The retry loop of doRequest\<close>

lemma client_with_retries_simps:
  "retryCount (client_with_retries r) = r" "retryDelay (client_with_retries r) = 1000"
  by (simp_all add: client_with_retries_def new_Web3Client_def or_default_def)

lemma loop_attempts_le:
  "attempts (request_loop rc rd t a l w) \<le> max a (rc + 1)"
proof (induction rc rd t a l w rule: request_loop.induct)
  case (1 rc rd t a l w)
  show ?case
  proof (cases "a \<le> rc")
    case False
    then show ?thesis by (simp add: request_loop.simps [of rc rd t a])
  next
    case True
    show ?thesis
    proof (cases "handle_response (t a)")
      case (Inr p)
      with True show ?thesis by (simp add: request_loop.simps [of rc rd t a])
    next
      case (Inl e)
      show ?thesis
      proof (cases "is_4xx e")
        case True
        with Inl \<open>a \<le> rc\<close> show ?thesis by (simp add: request_loop.simps [of rc rd t a])
      next
        case False
        from "1.IH" [OF True Inl False] True Inl False
        show ?thesis by (simp add: request_loop.simps [of rc rd t a])
      qed
    qed
  qed
qed

lemma loop_attempts_ge:
  "a \<le> attempts (request_loop rc rd t a l w)"
proof (induction rc rd t a l w rule: request_loop.induct)
  case (1 rc rd t a l w)
  show ?case
  proof (cases "a \<le> rc")
    case False
    then show ?thesis by (simp add: request_loop.simps [of rc rd t a])
  next
    case True
    show ?thesis
    proof (cases "handle_response (t a)")
      case (Inr p)
      with True show ?thesis by (simp add: request_loop.simps [of rc rd t a])
    next
      case (Inl e)
      show ?thesis
      proof (cases "is_4xx e")
        case True
        with Inl \<open>a \<le> rc\<close> show ?thesis by (simp add: request_loop.simps [of rc rd t a])
      next
        case False
        from "1.IH" [OF True Inl False] True Inl False
        show ?thesis by (simp add: request_loop.simps [of rc rd t a])
      qed
    qed
  qed
qed

lemma loop_attempts_gt:
  "a \<le> rc \<Longrightarrow> a < attempts (request_loop rc rd t a l w)"
  using loop_attempts_ge [of "a + 1" rc rd t]
  by (subst request_loop.simps) (auto split: sum.splits simp: Suc_le_eq)

lemma loop_delays:
  "a \<le> rc \<Longrightarrow>
   delays (request_loop rc rd t a l w)
     = w @ replicate (attempts (request_loop rc rd t a l w) - 1 - a) rd"
proof (induction rc rd t a l w rule: request_loop.induct)
  case (1 rc rd t a l w)
  note le = \<open>a \<le> rc\<close>
  show ?case
  proof (cases "handle_response (t a)")
    case (Inr p)
    with le show ?thesis by (simp add: request_loop.simps [of rc rd t a])
  next
    case (Inl e)
    show ?thesis
    proof (cases "is_4xx e")
      case True
      with Inl le show ?thesis by (simp add: request_loop.simps [of rc rd t a])
    next
      case False
      show ?thesis
      proof (cases "a < rc")
        case True
        then have "a + 1 \<le> rc" by simp
        from "1.IH" [OF le Inl False this] le Inl False True
        have "delays (request_loop rc rd t a l w) = (w @ [rd]) @ replicate (attempts (request_loop rc rd t a l w) - 1 - (a + 1)) rd"
          by (simp add: request_loop.simps [of rc rd t a])
        moreover have "a + 1 < attempts (request_loop rc rd t a l w)"
          using loop_attempts_gt [OF \<open>a + 1 \<le> rc\<close>, of rd t "Some e" "w @ [rd]"] le Inl \<open>\<not> is_4xx e\<close> True
          by (simp add: request_loop.simps [of rc rd t a])
        then have "replicate (attempts (request_loop rc rd t a l w) - 1 - a) rd
           = rd # replicate (attempts (request_loop rc rd t a l w) - 1 - (a + 1)) rd"
          by (cases "attempts (request_loop rc rd t a l w) - 1 - a") auto
        ultimately show ?thesis by simp
      next
        case False
        with le have "a = rc" by simp
        with Inl \<open>\<not> is_4xx e\<close> show ?thesis
          by (simp add: request_loop.simps [of rc rd t rc] request_loop.simps [of rc rd t "Suc rc"])
      qed
    qed
  qed
qed

lemma loop_stops_at:
  assumes "a \<le> k" and "k \<le> rc"
    and "\<forall>j. a \<le> j \<and> j < k \<longrightarrow> retried_failure (t j)"
    and "\<not> retried_failure (t k) \<or> k = rc"
  shows "request_loop rc rd t a l w
           = \<lparr>outcome = handle_response (t k), attempts = k + 1,
              delays = w @ replicate (k - a) rd\<rparr>"
  using assms
proof (induction "k - a" arbitrary: a l w)
  case 0
  then have ak: "a = k" by simp
  show ?case
  proof (cases "handle_response (t k)")
    case (Inr p)
    with ak \<open>k \<le> rc\<close> show ?thesis by (simp add: request_loop.simps [of rc rd t k])
  next
    case (Inl e)
    show ?thesis
    proof (cases "is_4xx e")
      case True
      with Inl ak \<open>k \<le> rc\<close> show ?thesis by (simp add: request_loop.simps [of rc rd t k])
    next
      case False
      with Inl "0.prems"(4) have "k = rc" by (simp add: retried_failure_def)
      with Inl False ak show ?thesis
        by (simp add: request_loop.simps [of rc rd t rc] request_loop.simps [of rc rd t "Suc rc"])
    qed
  qed
next
  case (Suc n)
  then have lt: "a < k" by simp
  with Suc.prems have "retried_failure (t a)" by simp
  then obtain e where e: "handle_response (t a) = Inl e" "\<not> is_4xx e"
    by (auto simp: retried_failure_def split: sum.splits)
  from lt \<open>k \<le> rc\<close> have arc: "a < rc" by simp
  have step: "request_loop rc rd t a l w = request_loop rc rd t (a + 1) (Some e) (w @ [rd])"
    using e arc by (simp add: request_loop.simps [of rc rd t a])
  have "n = k - (a + 1)" using Suc.hyps(2) by simp
  from Suc.hyps(1) [OF this, of "Some e" "w @ [rd]"] lt Suc.prems
  have "request_loop rc rd t (a + 1) (Some e) (w @ [rd])
          = \<lparr>outcome = handle_response (t k), attempts = k + 1,
             delays = (w @ [rd]) @ replicate (k - (a + 1)) rd\<rparr>"
    by simp
  moreover have "replicate (k - a) rd = rd # replicate (k - (a + 1)) rd"
    using lt by (cases "k - a") auto
  ultimately show ?case using step by simp
qed

lemma retried_failure_iff:
  "retried_failure r \<longleftrightarrow>
     (case r of
        FetchFailed m \<Rightarrow> True
      | Response st body parsed \<Rightarrow>
          (if \<not> response_ok st \<or> st = 202 then \<not> (400 \<le> st \<and> st < 500)
           else parsed = None))"
  by (auto simp: retried_failure_def split: fetch_outcome.splits option.splits sum.splits)

text \<open>
  Claim C3, as the code has it. A call of \<open>doRequest\<close> with retry count \<open>r\<close> makes at
  most \<open>r + 1\<close> attempts, and waits the same fixed \<open>retryDelay\<close> between any two of
  them. It stops at the first attempt \<open>k \<le> r\<close> that does not end in a retried failure
  (a success, or a \<open>MixinRouteAPIError\<close> with a 4xx status, which is thrown at once), or
  at attempt \<open>r\<close>, and returns or throws what that attempt gave. The retried failures
  are all failures but the 4xx ones: a \<open>fetch\<close> that throws, a response that is not 2xx
  or is 202 and whose status is not 4xx (5xx, but also 202 and any other such status),
  and a 2xx response whose body does not parse.
\<close>

theorem doRequest_retry_policy:
  "attempts (doRequest c (Inr sg) t) \<le> retryCount c + 1
   \<and> delays (doRequest c (Inr sg) t) = replicate (attempts (doRequest c (Inr sg) t) - 1) (retryDelay c)
   \<and> (k \<le> retryCount c \<and> (\<forall>j<k. retried_failure (t j))
        \<and> (\<not> retried_failure (t k) \<or> k = retryCount c)
      \<longrightarrow> doRequest c (Inr sg) t
           = \<lparr>outcome = handle_response (t k), attempts = k + 1,
              delays = replicate k (retryDelay c)\<rparr>)
   \<and> (retried_failure (t k) \<longleftrightarrow>
        (case t k of
           FetchFailed m \<Rightarrow> True
         | Response st body parsed \<Rightarrow>
             (if \<not> response_ok st \<or> st = 202 then \<not> (400 \<le> st \<and> st < 500)
              else parsed = None)))"
proof -
  have "attempts (doRequest c (Inr sg) t) \<le> retryCount c + 1"
    using loop_attempts_le [of "retryCount c" "retryDelay c" t 0 None "[]"]
    by (simp add: doRequest_def)
  moreover have "delays (doRequest c (Inr sg) t) = replicate (attempts (doRequest c (Inr sg) t) - 1) (retryDelay c)"
    using loop_delays [of 0 "retryCount c" "retryDelay c" t None "[]"]
    by (simp add: doRequest_def)
  moreover have "doRequest c (Inr sg) t
           = \<lparr>outcome = handle_response (t k), attempts = k + 1,
              delays = replicate k (retryDelay c)\<rparr>"
    if "k \<le> retryCount c" "\<forall>j<k. retried_failure (t j)"
       "\<not> retried_failure (t k) \<or> k = retryCount c"
    using loop_stops_at [of 0 k "retryCount c" t "retryDelay c" None "[]"] that
    by (simp add: doRequest_def)
  ultimately show ?thesis
    using retried_failure_iff [of "t k"] by blast
qed

text \<open>
  The two scenarios of the specification: three 5xx responses and then a 2xx give the
  payload with retry count 3, and a failure after two attempts with retry count 1.
\<close>

theorem doRequest_retry_policy_witness:
  "doRequest (client_with_retries 3) (Inr sg0) five_xx_then_ok
     = \<lparr>outcome = Inr (JStr ''ok''), attempts = 4, delays = [1000, 1000, 1000]\<rparr>
   \<and> attempts (doRequest (client_with_retries 1) (Inr sg0) five_xx_then_ok) = 2
   \<and> isl (outcome (doRequest (client_with_retries 1) (Inr sg0) five_xx_then_ok))"
proof -
  have r: "retried_failure (five_xx_then_ok j)" if "j < 3" for j
    using that by (simp add: retried_failure_def five_xx_then_ok_def response_ok_def)
  have s: "\<not> retried_failure (five_xx_then_ok 3)"
    by (simp add: retried_failure_def five_xx_then_ok_def response_ok_def)
  have "doRequest (client_with_retries 3) (Inr sg0) five_xx_then_ok
     = \<lparr>outcome = handle_response (five_xx_then_ok 3), attempts = 3 + 1,
        delays = replicate 3 1000\<rparr>"
    using doRequest_retry_policy [of "client_with_retries 3" "sg0" five_xx_then_ok 3] r s
    by (simp add: client_with_retries_simps)
  moreover have "doRequest (client_with_retries 1) (Inr sg0) five_xx_then_ok
     = \<lparr>outcome = handle_response (five_xx_then_ok 1), attempts = 1 + 1,
        delays = replicate 1 1000\<rparr>"
    using doRequest_retry_policy [of "client_with_retries 1" "sg0" five_xx_then_ok 1] r
    by (simp add: client_with_retries_simps)
  ultimately show ?thesis
    by (simp add: five_xx_then_ok_def response_ok_def numeral_3_eq_3)
qed

text \<open>
  Claim C3 as stated says that only transport failures and 5xx responses are retried.
  A 202 response is neither, and it is retried: with retry count 1 the second attempt
  is made and its payload returned.
\<close>

theorem retry_only_transport_and_5xx_counterexample:
  "accepted_then_ok 0 = Response 202 ''Accepted'' None
   \<and> doRequest (client_with_retries 1) (Inr sg0) accepted_then_ok
       = \<lparr>outcome = Inr (JStr ''ok''), attempts = 2, delays = [1000]\<rparr>"
  by (simp add: accepted_then_ok_def doRequest_def request_loop.simps response_ok_def
      client_with_retries_simps)

section \<open>The response envelope\<close>

lemma loop_outcome:
  "a \<le> rc \<Longrightarrow>
   outcome (request_loop rc rd t a l w)
     = handle_response (t (attempts (request_loop rc rd t a l w) - 1))"
proof (induction rc rd t a l w rule: request_loop.induct)
  case (1 rc rd t a l w)
  note le = \<open>a \<le> rc\<close>
  show ?case
  proof (cases "handle_response (t a)")
    case (Inr p)
    with le show ?thesis by (simp add: request_loop.simps [of rc rd t a])
  next
    case (Inl e)
    show ?thesis
    proof (cases "is_4xx e")
      case True
      with Inl le show ?thesis by (simp add: request_loop.simps [of rc rd t a])
    next
      case False
      show ?thesis
      proof (cases "a < rc")
        case True
        then have "a + 1 \<le> rc" by simp
        from "1.IH" [OF le Inl False this] le Inl False True
        show ?thesis by (simp add: request_loop.simps [of rc rd t a])
      next
        case False
        with le have "a = rc" by simp
        with Inl \<open>\<not> is_4xx e\<close> show ?thesis
          by (simp add: request_loop.simps [of rc rd t rc] request_loop.simps [of rc rd t "Suc rc"])
      qed
    qed
  qed
qed

text \<open>
  Claim C4, as the code has it. What \<open>doRequest\<close> returns or throws is what the last
  attempt it made gave. A 2xx response other than 202 whose parsed body has a \<open>data\<close>
  member yields that member alone. A response that is not 2xx, or is 202, is thrown as
  a \<open>MixinRouteAPIError\<close> that carries the status and the raw body; when the parsed
  body has a truthy \<open>error\<close> member the error also carries that member's \<open>code\<close>,
  \<open>description\<close> and \<open>extra.range\<close>, and otherwise it carries none of them and its
  message is the status followed by the raw body.
\<close>

theorem doRequest_response_envelope:
  "outcome (doRequest c (Inr sg) t) = handle_response (t (attempts (doRequest c (Inr sg) t) - 1))
   \<and> (response_ok st \<and> st \<noteq> 202 \<and> member result ''data'' = Some d
        \<longrightarrow> handle_response (Response st body (Some result)) = Inr d)
   \<and> ((\<not> response_ok st \<or> st = 202) \<and> opt_member parsed ''error'' = Some e \<and> truthy e
        \<longrightarrow> handle_response (Response st body parsed)
            = Inl (MixinRouteAPIError
                \<lparr>statusCode = st, code = member e ''code'',
                 description = member e ''description'', rawBody = body,
                 range = opt_member (member e ''extra'') ''range'',
                 message = FromDescription (member e ''description'')\<rparr>))
   \<and> ((\<not> response_ok st \<or> st = 202)
        \<and> (\<forall>e. opt_member parsed ''error'' = Some e \<longrightarrow> \<not> truthy e)
        \<longrightarrow> handle_response (Response st body parsed)
            = Inl (MixinRouteAPIError
                \<lparr>statusCode = st, code = None, description = None, rawBody = body,
                 range = None, message = HttpStatusAndBody st body\<rparr>))"
proof -
  have 1: "outcome (doRequest c (Inr sg) t) = handle_response (t (attempts (doRequest c (Inr sg) t) - 1))"
    using loop_outcome [of 0 "retryCount c" "retryDelay c" t None "[]"]
    by (simp add: doRequest_def)
  have 2: "handle_response (Response st body (Some result)) = Inr d"
    if "response_ok st" "st \<noteq> 202" "member result ''data'' = Some d"
    using that by (cases result) auto
  have 3: "handle_response (Response st body parsed)
            = Inl (MixinRouteAPIError
                \<lparr>statusCode = st, code = member e ''code'',
                 description = member e ''description'', rawBody = body,
                 range = opt_member (member e ''extra'') ''range'',
                 message = FromDescription (member e ''description'')\<rparr>)"
    if "\<not> response_ok st \<or> st = 202" "opt_member parsed ''error'' = Some e" "truthy e"
    using that by auto
  have 4: "handle_response (Response st body parsed)
            = Inl (MixinRouteAPIError
                \<lparr>statusCode = st, code = None, description = None, rawBody = body,
                 range = None, message = HttpStatusAndBody st body\<rparr>)"
    if "\<not> response_ok st \<or> st = 202" "\<forall>e. opt_member parsed ''error'' = Some e \<longrightarrow> \<not> truthy e"
    using that by (auto split: option.splits)
  from 1 2 3 4 show ?thesis by blast
qed

text \<open>
  A 400 response with a full error envelope, a 200 response with a \<open>data\<close> envelope, and
  a 202 response whose body is \<open>null\<close>.
\<close>

theorem doRequest_response_envelope_witness:
  \<open>doRequest (client_with_retries 0) (Inr sg0)
      (\<lambda>i. Response 400 ''{"error":{"code":10614,"description":"invalid amount","extra":{"range":{"min":"1","max":"9"}}}}''
         (Some (JObj [(''error'', JObj [(''code'', JNum 10614),
            (''description'', JStr ''invalid amount''),
            (''extra'', JObj [(''range'', JObj [(''min'', JStr ''1''), (''max'', JStr ''9'')])])])])))
    = \<lparr>outcome = Inl (MixinRouteAPIError
          \<lparr>statusCode = 400, code = Some (JNum 10614),
           description = Some (JStr ''invalid amount''),
           rawBody = ''{"error":{"code":10614,"description":"invalid amount","extra":{"range":{"min":"1","max":"9"}}}}'',
           range = Some (JObj [(''min'', JStr ''1''), (''max'', JStr ''9'')]),
           message = FromDescription (Some (JStr ''invalid amount''))\<rparr>),
       attempts = 1, delays = []\<rparr>
   \<and> handle_response (Response 200 ''{"data":[1]}'' (Some (JObj [(''data'', JArr [JNum 1])])))
       = Inr (JArr [JNum 1])
   \<and> handle_response (Response 202 ''null'' (Some JNull))
       = Inl (MixinRouteAPIError
           \<lparr>statusCode = 202, code = None, description = None, rawBody = ''null'',
            range = None, message = HttpStatusAndBody 202 ''null''\<rparr>)\<close>
proof -
  let ?e = "JObj [(''code'', JNum 10614), (''description'', JStr ''invalid amount''),
            (''extra'', JObj [(''range'', JObj [(''min'', JStr ''1''), (''max'', JStr ''9'')])])]"
  let ?c = "client_with_retries 0"
  note a = doRequest_response_envelope [where c = ?c and st = 400
      and parsed = "Some (JObj [(''error'', ?e)])" and e = ?e]
  note b = doRequest_response_envelope [where st = 200
      and result = "JObj [(''data'', JArr [JNum 1])]" and d = "JArr [JNum 1]"]
  note c = doRequest_response_envelope [where st = 202 and parsed = "Some JNull"]
  show ?thesis
    using a b c
    by (simp add: response_ok_def doRequest_def request_loop.simps client_with_retries_simps)
qed

text \<open>
  Claim C4 as stated says that an unsuccessful response is never surfaced as the raw
  response body. A 500 response whose body is not a JSON envelope is thrown as an error
  with no code and no description, whose message and \<open>rawBody\<close> are the raw body.
\<close>

theorem never_raw_body_counterexample:
  "doRequest (client_with_retries 0) (Inr sg0) plain_text_500
     = \<lparr>outcome = Inl (MixinRouteAPIError
          \<lparr>statusCode = 500, code = None, description = None,
           rawBody = ''Internal Server Error'', range = None,
           message = HttpStatusAndBody 500 ''Internal Server Error''\<rparr>),
        attempts = 1, delays = []\<rparr>"
  by (simp add: plain_text_500_def doRequest_def request_loop.simps response_ok_def
      client_with_retries_simps)

section \<open>Bulk mode\<close>

lemma foldl_percentage: "foldl (\<lambda>s bt. s + percentage bt) a bts = a + sum_list (map percentage bts)"
  by (induction bts arbitrary: a) auto













section \<open>Split mode\<close>




section \<open>Payment polling\<close>

lemma start_checks_flags:
  "fst (start_checks flags ords) = flags \<union> traceId ` set (snd (start_checks flags ords))"
  by (induction ords arbitrary: flags) auto

lemma start_checks_fresh:
  "ord \<in> set (snd (start_checks flags ords)) \<Longrightarrow> traceId ord \<notin> flags"
  by (induction ords arbitrary: flags) (auto split: if_splits)

lemma finish_check_error:
  "finish_check (FetchThrows status) ord st
     = st\<lparr>console_errors := console_errors st
             @ (if status \<noteq> Some 404 then [(order_symbol ord, status)] else []),
          pollingFlags := pollingFlags st - {traceId ord}\<rparr>"
  by (simp add: finish_check_def)

lemma finish_all_errors:
  assumes "all_errors ledger"
  shows "foldl (\<lambda>s ord. finish_check (ledger (traceId ord)) ord s) st started
     = st\<lparr>console_errors := console_errors st
             @ concat (map (\<lambda>ord. case ledger (traceId ord) of
                           FetchThrows status \<Rightarrow>
                             (if status \<noteq> Some 404 then [(order_symbol ord, status)] else [])
                         | _ \<Rightarrow> []) started),
          pollingFlags := pollingFlags st - traceId ` set started\<rparr>"
proof (induction started arbitrary: st)
  case Nil
  show ?case by simp
next
  case (Cons ord started)
  obtain status where s: "ledger (traceId ord) = FetchThrows status"
    using assms by (auto simp: all_errors_def)
  have "foldl (\<lambda>s ord. finish_check (ledger (traceId ord)) ord s) st (ord # started)
      = foldl (\<lambda>s ord. finish_check (ledger (traceId ord)) ord s)
          (finish_check (FetchThrows status) ord st) started"
    by (simp add: s)
  also have "\<dots> = (finish_check (FetchThrows status) ord st)
       \<lparr>console_errors := console_errors (finish_check (FetchThrows status) ord st)
             @ concat (map (\<lambda>ord. case ledger (traceId ord) of
                           FetchThrows status \<Rightarrow>
                             (if status \<noteq> Some 404 then [(order_symbol ord, status)] else [])
                         | _ \<Rightarrow> []) started),
          pollingFlags := pollingFlags (finish_check (FetchThrows status) ord st)
             - traceId ` set started\<rparr>"
    by (rule Cons.IH)
  also have "\<dots> = st\<lparr>console_errors := console_errors st
             @ concat (map (\<lambda>ord. case ledger (traceId ord) of
                           FetchThrows status \<Rightarrow>
                             (if status \<noteq> Some 404 then [(order_symbol ord, status)] else [])
                         | _ \<Rightarrow> []) (ord # started)),
          pollingFlags := pollingFlags st - traceId ` set (ord # started)\<rparr>"
    by (auto simp: finish_check_error s intro!: poll_state.equality)
  finally show ?case .
qed

lemma checkAllPayments_all_errors:
  assumes "all_errors ledger"
  shows "checkAllPayments ledger st
           = st\<lparr>console_errors := console_errors st @ logged_errors ledger st\<rparr>"
proof -
  let ?started = "snd (start_checks (pollingFlags st) (poll_orders st))"
  have "(pollingFlags st \<union> traceId ` set ?started) - traceId ` set ?started = pollingFlags st"
    using start_checks_fresh [of _ "pollingFlags st" "poll_orders st"] by auto
  then show ?thesis
    unfolding checkAllPayments_def finish_all_errors [OF assms] logged_errors_def
    by (simp add: start_checks_flags [of "pollingFlags st" "poll_orders st"])
qed

lemma interval_tick_all_errors:
  "all_errors ledger \<Longrightarrow>
   interval_tick ledger st
     = st\<lparr>console_errors := console_errors st
             @ (if interval_set st then logged_errors ledger st else [])\<rparr>"
  by (simp add: interval_tick_def checkAllPayments_all_errors)

lemma logged_errors_404:
  "(\<forall>tr. ledger tr = FetchThrows (Some 404)) \<Longrightarrow> logged_errors ledger st = []"
  by (simp add: logged_errors_def)

lemma interval_ticks_all_errors:
  "list_all all_errors ledgers \<Longrightarrow>
   (interval_ticks ledgers st)\<lparr>console_errors := console_errors st\<rparr> = st"
proof (induction ledgers arbitrary: st)
  case Nil
  show ?case by simp
next
  case (Cons ledger ledgers)
  then have a: "all_errors ledger" and b: "list_all all_errors ledgers" by simp_all
  let ?s = "interval_tick ledger st"
  have "(interval_ticks ledgers ?s)\<lparr>console_errors := console_errors ?s\<rparr> = ?s"
    by (rule Cons.IH [OF b])
  then have "(interval_ticks ledgers ?s)\<lparr>console_errors := console_errors ?s\<rparr>
                \<lparr>console_errors := console_errors st\<rparr>
             = ?s\<lparr>console_errors := console_errors st\<rparr>"
    by simp
  then show ?case
    by (simp add: interval_tick_all_errors [OF a])
qed

text \<open>
  Claim C7. A check in which the ledger answers every trace with an error changes
  nothing but the console: the orders, the toasts, the flags and the interval are as
  before, and the errors written are those whose status is not 404. When every answer
  is 404 the state is the same as before. So after any number of such checks the state
  differs from the first one in the console only, and the interval goes on checking as
  if they had not happened.
\<close>

theorem polling_survives_errors:
  "(all_errors ledger \<longrightarrow>
      interval_tick ledger st
        = st\<lparr>console_errors := console_errors st
                @ (if interval_set st then logged_errors ledger st else [])\<rparr>)
   \<and> ((\<forall>tr. ledger tr = FetchThrows (Some 404)) \<longrightarrow> interval_tick ledger st = st)
   \<and> (list_all all_errors ledgers \<longrightarrow>
        (interval_ticks ledgers st)\<lparr>console_errors := console_errors st\<rparr> = st)"
proof -
  have "interval_tick ledger st = st" if "\<forall>tr. ledger tr = FetchThrows (Some 404)"
  proof -
    from that have "all_errors ledger" by (auto simp: all_errors_def)
    then show ?thesis
      using logged_errors_404 [OF that] by (simp add: interval_tick_all_errors)
  qed
  then show ?thesis
    using interval_tick_all_errors [of ledger st] interval_ticks_all_errors [of ledgers st]
    by blast
qed

text \<open>
  A check that finds no trace, a check in which the ledger answers 500 for one trace,
  and then a check that finds that trace spent: the order is marked paid.
\<close>

theorem polling_survives_errors_witness:
  "interval_tick ledger_not_found example_poll = example_poll
   \<and> interval_ticks [ledger_not_found, ledger_failing] example_poll
       = example_poll\<lparr>console_errors := [(''BTC'', Some 500)]\<rparr>
   \<and> interval_ticks [ledger_not_found, ledger_failing, ledger_spent] example_poll
       = example_poll
           \<lparr>poll_orders := [(example_order ''BTC'' ''t1'')\<lparr>isPaid := True\<rparr>,
                             example_order ''SOL'' ''t2''],
            poll_toasts := [PaymentSucceeded ''BTC''],
            console_errors := [(''BTC'', Some 500)]\<rparr>"
proof -
  have a: "all_errors ledger_not_found" "all_errors ledger_failing"
    by (simp_all add: all_errors_def ledger_not_found_def ledger_failing_def)
  have n: "\<forall>tr. ledger_not_found tr = FetchThrows (Some 404)"
    by (simp add: ledger_not_found_def)
  note t = polling_survives_errors [of ledger_not_found example_poll "[ledger_not_found, ledger_failing]"]
  have 1: "interval_tick ledger_not_found example_poll = example_poll"
    using t n by blast
  have 2: "interval_tick ledger_failing example_poll
             = example_poll\<lparr>console_errors := [(''BTC'', Some 500)]\<rparr>"
    using polling_survives_errors [of ledger_failing example_poll "[]"] a
    by (simp add: logged_errors_def example_poll_def example_order_def ledger_failing_def)
  have 3: "interval_tick ledger_spent (example_poll\<lparr>console_errors := [(''BTC'', Some 500)]\<rparr>)
             = example_poll
           \<lparr>poll_orders := [(example_order ''BTC'' ''t1'')\<lparr>isPaid := True\<rparr>,
                             example_order ''SOL'' ''t2''],
            poll_toasts := [PaymentSucceeded ''BTC''],
            console_errors := [(''BTC'', Some 500)]\<rparr>"
    by (auto simp add: interval_tick_def checkAllPayments_def finish_check_def example_poll_def
        example_order_def ledger_spent_def)
  show ?thesis by (simp add: 1 2 3)
qed

section \<open>Amounts\<close>

lemma executeSwap_Inr:
  "executeSwap cl p = (Inr (q, sw), cs) \<Longrightarrow>
   client_getQuote cl (inputAssetId p) (outputAssetId p) (inputAmount p) = Inr q"
  by (auto simp: executeSwap_def getSwapQuote_def createSwap_def split: sum.splits if_splits)

text \<open>
  Claim C8, as the code has it. The input amount of an order is a decimal string, and
  it is computed in binary floating point: the \<open>parseFloat\<close> of the balance, multiplied
  and divided as numbers, then \<open>toString\<close>. That same string is the amount the quote
  was asked for, and the output amount of the order is the \<open>outAmount\<close> of that quote,
  as the server gave it.
\<close>

theorem order_amounts:
  "(balances env aid = Some b \<and> fst (bulk_create_order env uid out pct aid) = Some ord
      \<longrightarrow> order_inputAmount ord
            = toString (number_divide
                (number_times (parseFloat (total_amount b)) (number_of_int pct))
                (number_of_int 100))
          \<and> (\<exists>q. client_getQuote (client env) aid (assetId out) (order_inputAmount ord) = Inr q
                 \<and> order_outputAmount ord = outAmount q))
   \<and> (fst (split_create_order env uid aid b sellPct bt) = Some sord
      \<longrightarrow> split_inputAmount sord
            = toString (number_divide
                (number_times
                   (number_times (parseFloat (total_amount b))
                      (number_divide (number_of_int sellPct) (number_of_int 100)))
                   (number_of_int (percentage bt)))
                (number_of_int 100))
          \<and> (\<exists>q. client_getQuote (client env) aid (assetId (token bt)) (split_inputAmount sord)
                    = Inr q
                 \<and> split_outputAmount sord = outAmount q))"
proof -
  have 1: "order_inputAmount ord = bulk_inputAmount b pct
          \<and> (\<exists>q. client_getQuote (client env) aid (assetId out) (order_inputAmount ord) = Inr q
                 \<and> order_outputAmount ord = outAmount q)"
    if "balances env aid = Some b" "fst (bulk_create_order env uid out pct aid) = Some ord"
    using that
    by (auto simp: bulk_create_order_def split: prod.splits sum.splits dest!: executeSwap_Inr)
  have 2: "split_inputAmount sord = split_sellAmount b sellPct (percentage bt)
          \<and> (\<exists>q. client_getQuote (client env) aid (assetId (token bt)) (split_inputAmount sord)
                    = Inr q
                 \<and> split_outputAmount sord = outAmount q)"
    if "fst (split_create_order env uid aid b sellPct bt) = Some sord"
    using that
    by (auto simp: split_create_order_def split: prod.splits sum.splits dest!: executeSwap_Inr)
  from 1 2 show ?thesis
    unfolding bulk_inputAmount_def split_sellAmount_def by blast
qed

lemma amount_btc_33:
  "toString (number_divide (number_times (parseFloat ''1.1'') (number_of_int 33))
      (number_of_int 100)) = ''0.36300000000000004''"
  by code_simp

lemma amount_btc_50:
  "toString (number_divide
      (number_times (number_times (parseFloat ''1.1'')
          (number_divide (number_of_int 100) (number_of_int 100))) (number_of_int 50))
      (number_of_int 100)) = ''0.55''"
  by code_simp

lemma exact_amount: "toString (parseFloat ''0.363'') = ''0.363''"
  by code_simp

text \<open>
  The balance 1.1 at 33 percent in bulk mode, and at 50 percent in split mode.
\<close>

theorem order_amounts_witness:
  "order_outputAmount (the (fst (bulk_create_order example_env ''user'' xin 33 ''btc'')))
     = ''63.667264''
   \<and> order_inputAmount (the (fst (bulk_create_order example_env ''user'' xin 33 ''btc'')))
     = ''0.36300000000000004''
   \<and> split_inputAmount (the (fst (split_create_order example_env ''user'' ''btc''
        (the (example_balances ''btc'')) 100 \<lparr>token = xin, percentage = 50, price = Finite 25 2\<rparr>)))
     = ''0.55''"
proof -
  let ?b = "the (example_balances ''btc'')"
  let ?bt = "\<lparr>token = xin, percentage = 50, price = Finite 25 2\<rparr>"
  have b: "balances example_env ''btc'' = Some ?b" and t: "total_amount ?b = ''1.1''"
    by (simp_all add: example_env_def example_balances_def)
  obtain ord where o: "fst (bulk_create_order example_env ''user'' xin 33 ''btc'') = Some ord"
    by (simp add: bulk_create_order_def executeSwap_def getSwapQuote_def createSwap_def
        example_env_def example_balances_def example_getQuote_def example_swap_def
        example_decode_def xin_def)
  obtain sord where s: "fst (split_create_order example_env ''user'' ''btc'' ?b 100 ?bt) = Some sord"
    by (simp add: split_create_order_def executeSwap_def getSwapQuote_def createSwap_def
        example_env_def example_getQuote_def example_swap_def example_decode_def xin_def)
  have q: "client_getQuote (client example_env) ''btc'' (assetId xin) a = Inr q
           \<Longrightarrow> outAmount q = ''63.667264''" for a q
    by (auto simp: example_env_def example_getQuote_def xin_def)
  from order_amounts [of example_env "''btc''" ?b "''user''" xin 33 ord 100 ?bt sord] b o s q
  show ?thesis
    by (auto simp: t amount_btc_33 amount_btc_50)
qed

text \<open>
  Claim C8 as stated says that the arithmetic on amounts avoids the precision loss of
  binary floating point. 33 percent of the balance 1.1 is 0.363, which \<open>toString\<close>
  would print as such; the amount BulkSwap asks a quote for, and keeps in the order,
  is 0.36300000000000004.
\<close>

theorem decimal_safe_counterexample:
  "total_amount (the (balances example_env ''btc'')) = ''1.1''
   \<and> swapPercentage example_bulk = 33
   \<and> toString (parseFloat ''0.363'') = ''0.363''
   \<and> hd (calls (snd (bulk_handleCalculateSwap example_env example_bulk)))
       = GetQuote ''btc'' ''xin'' ''0.36300000000000004''
   \<and> order_inputAmount (hd (swapOrders (fst (bulk_handleCalculateSwap example_env example_bulk))))
       = ''0.36300000000000004''"
  by (simp add: bulk_handleCalculateSwap_def bulk_create_order_def executeSwap_def
      getSwapQuote_def createSwap_def valid_orders_def bulk_inputAmount_def Let_def
      example_env_def example_bulk_def example_balances_def example_getQuote_def
      example_swap_def example_decode_def xin_def symbol_of_def icon_of_def
      amount_btc_33 exact_amount)

end
